theory Spec2Isabelle
  imports Main
begin

section \<open>Shared conventions\<close>

text \<open>
  The agent is written in Go. A Go \<^verbatim>\<open>string\<close> is a sequence of bytes and is modelled
  by \<^typ>\<open>string\<close>; a Go \<^verbatim>\<open>int\<close> by \<^typ>\<open>int\<close> (no arithmetic of the modelled code
  can overflow); a \<^verbatim>\<open>time.Time\<close> by an \<^typ>\<open>int\<close> of nanoseconds on the clock that
  \<^verbatim>\<open>time.Now\<close> reads, counted from Go's zero instant, so that \<^verbatim>\<open>time.Time{}\<close> is 0;
  a \<^verbatim>\<open>time.Duration\<close> by an \<^typ>\<open>int\<close> of nanoseconds inside the signed 64-bit range.
  A Go \<^verbatim>\<open>error\<close> result is an \<open>option\<close> (\<open>None\<close> is \<^verbatim>\<open>nil\<close>).
  Record fields carry a short prefix of their struct, since the Go packages reuse names.
\<close>

type_synonym Time = int
type_synonym Duration = int

definition zeroTime :: Time where
  "zeroTime = 0"

definition maxDuration :: Duration where
  "maxDuration = 2 ^ 63 - 1"

definition minDuration :: Duration where
  "minDuration = - (2 ^ 63)"

definition Second :: Duration where
  "Second = 1000000000"

definition Minute :: Duration where
  "Minute = 60 * Second"

text \<open>\<^verbatim>\<open>t.Sub(u)\<close> of package time: the difference, saturated to the range of a Duration.\<close>

definition Sub :: "Time \<Rightarrow> Time \<Rightarrow> Duration" where
  "Sub t u =
     (let d = t - u
      in if d > maxDuration then maxDuration
         else if d < minDuration then minDuration
         else d)"

text \<open>\<^verbatim>\<open>time.Since(t)\<close> is \<^verbatim>\<open>time.Now().Sub(t)\<close>; the reading of the clock is the first argument.\<close>

definition Since :: "Time \<Rightarrow> Time \<Rightarrow> Duration" where
  "Since now t = Sub now t"

text \<open>
  Go compares strings byte by byte; a proper prefix is smaller. \<open>string_less a b\<close> is
  the Go expression \<^verbatim>\<open>a < b\<close>.
\<close>

fun string_less :: "string \<Rightarrow> string \<Rightarrow> bool" where
  "string_less [] [] = False"
| "string_less [] (y # ys) = True"
| "string_less (x # xs) [] = False"
| "string_less (x # xs) (y # ys) =
     ((of_char x :: nat) < of_char y \<or> (x = y \<and> string_less xs ys))"

text \<open>A dynamically typed value (\<^verbatim>\<open>interface{}\<close>) as it arrives in a decoded JSON payload.\<close>

datatype jvalue =
    JNull
  | JBool bool
  | JNum int
  | JStr string
  | JArr "jvalue list"
  | JObj "(string \<times> jvalue) list"

type_synonym jmap = "string \<rightharpoonup> jvalue"


section \<open>Updater plugin: version comparison\<close>

record UpdateInfo =
  ui_Version :: string
  ui_URL :: string
  ui_Checksum :: string
  ui_ReleaseDate :: Time
  ui_Changelog :: string
  ui_Size :: int

text \<open>The fields of \<^verbatim>\<open>UpdaterPlugin\<close> that the version check reads.\<close>

record UpdaterPlugin =
  up_currentVersion :: string
  up_updateURL :: string
  up_downloadDir :: string

definition compareVersions :: "string \<Rightarrow> string \<Rightarrow> int" where
  "compareVersions v1 v2 =
     (if v1 = v2 then 0
      else if string_less v2 v1 then 1
      else - 1)"

text \<open>
  \<^verbatim>\<open>checkUpdate\<close> is a placeholder in the source: it logs and returns \<^verbatim>\<open>nil, nil\<close>.
  The result type is the error text or the offered update, if any.
\<close>

definition checkUpdate :: "UpdaterPlugin \<Rightarrow> string + UpdateInfo option" where
  "checkUpdate p = Inr None"

text \<open>
  \<^verbatim>\<open>isUpdateAvailable\<close>, with the check it calls as a parameter, so that the comparison
  can be stated for an offered update; \<open>isUpdateAvailable\<close> is the source's function.
  The result is the triple (available, update, error).
\<close>

definition isUpdateAvailable_with ::
  "(UpdaterPlugin \<Rightarrow> string + UpdateInfo option) \<Rightarrow> UpdaterPlugin
     \<Rightarrow> bool \<times> UpdateInfo option \<times> string option" where
  "isUpdateAvailable_with check p =
     (case check p of
        Inl err \<Rightarrow> (False, None, Some err)
      | Inr None \<Rightarrow> (False, None, None)
      | Inr (Some update) \<Rightarrow>
          (compareVersions (ui_Version update) (up_currentVersion p) > 0, Some update, None))"

definition isUpdateAvailable :: "UpdaterPlugin \<Rightarrow> bool \<times> UpdateInfo option \<times> string option" where
  "isUpdateAvailable p = isUpdateAvailable_with checkUpdate p"

text \<open>
  The specification's word: \<open>a\<close> is lexicographically greater than \<open>b\<close>, by the
  lexicographic extension of the order of the bytes.
\<close>

definition lex_greater :: "string \<Rightarrow> string \<Rightarrow> bool" where
  "lex_greater a b \<longleftrightarrow> (b, a) \<in> lexord {(x, y). (of_char x :: nat) < of_char y}"


section \<open>State store\<close>

text \<open>
  \<^verbatim>\<open>Status\<close> of package state. The floating-point fields (uptime and the three usage
  figures) and the system-info snapshot are left out: no modelled function reads them.
\<close>

record AgentStatus =
  as_AgentID :: string
  as_Version :: string
  as_Status :: string
  as_StartTime :: Time
  as_LastHeartbeat :: Time
  as_RunningTasks :: int
  as_TotalTasks :: int

text \<open>
  \<^verbatim>\<open>Manager\<close> of package state, together with the file it mirrors itself to:
  \<open>sm_disk\<close> is the content of \<^verbatim>\<open>status.json\<close> under the data directory, if written.
\<close>

record StateManager =
  sm_dataDir :: string
  sm_status :: AgentStatus
  sm_startTime :: Time
  sm_disk :: "AgentStatus option"

text \<open>
  \<^verbatim>\<open>saveStatus\<close>: the first argument says whether \<^verbatim>\<open>os.WriteFile\<close> succeeds
  (\<open>None\<close>) or fails with a message.
\<close>

definition saveStatus :: "string option \<Rightarrow> StateManager \<Rightarrow> string option \<times> StateManager" where
  "saveStatus write m =
     (case write of
        Some err \<Rightarrow> (Some (''failed to write status file: '' @ err), m)
      | None \<Rightarrow> (None, m\<lparr>sm_disk := Some (sm_status m)\<rparr>))"

definition UpdateHeartbeat :: "string option \<Rightarrow> Time \<Rightarrow> StateManager \<Rightarrow> StateManager" where
  "UpdateHeartbeat write now m =
     snd (saveStatus write (m\<lparr>sm_status := (sm_status m)\<lparr>as_LastHeartbeat := now\<rparr>\<rparr>))"

definition Stop_state :: "string option \<Rightarrow> StateManager \<Rightarrow> StateManager" where
  "Stop_state write m =
     snd (saveStatus write (m\<lparr>sm_status := (sm_status m)\<lparr>as_Status := ''stopped''\<rparr>\<rparr>))"

text \<open>
  \<^verbatim>\<open>IsHealthy\<close>: the heartbeat is checked first, then the status. The function returns
  its verdict and the store as it leaves it; \<open>now\<close> is the reading of the clock.
\<close>

definition IsHealthy :: "Time \<Rightarrow> StateManager \<Rightarrow> bool \<times> StateManager" where
  "IsHealthy now m =
     (if Since now (as_LastHeartbeat (sm_status m)) > 5 * Minute then (False, m)
      else if as_Status (sm_status m) \<noteq> ''running'' then (False, m)
      else (True, m))"


section \<open>Command executor\<close>

definition CommandTypeShell :: string where
  "CommandTypeShell = ''shell''"

definition CommandTypePowerShell :: string where
  "CommandTypePowerShell = ''powershell''"

definition CommandTypeContainer :: string where
  "CommandTypeContainer = ''container''"

text \<open>\<^verbatim>\<open>Command\<close>; its \<^verbatim>\<open>Type\<close> is a Go string type, so any string can occur.\<close>

record Command =
  c_ID :: string
  c_Type :: string
  c_Script :: string
  c_Args :: "string list"
  c_WorkingDir :: string
  c_Timeout :: int
  c_ContainerID :: string
  c_User :: string
  c_Env :: "string list"

text \<open>
  \<^verbatim>\<open>Result\<close>. \<open>r_Duration\<close> holds the \<^verbatim>\<open>time.Duration\<close> whose \<^verbatim>\<open>Seconds()\<close> the source
  stores as a float.
\<close>

record Result =
  r_ID :: string
  r_Success :: bool
  r_ExitCode :: int
  r_Output :: string
  r_Error :: string
  r_StartTime :: Time
  r_EndTime :: Time
  r_Duration :: Duration

text \<open>
  \<^verbatim>\<open>exec.Cmd\<close> of package os/exec, the description of a process to launch. \<open>x_Env\<close> is
  \<open>None\<close> for a nil \<^verbatim>\<open>Env\<close>; \<open>x_Timeout\<close> is the number of seconds of the
  \<^verbatim>\<open>context.WithTimeout\<close> the command is bound to, \<open>None\<close> for a command made without
  a context; \<open>x_Process\<close> is the process handle once started.
\<close>

record Cmd =
  x_Path :: string
  x_Args :: "string list"
  x_Dir :: string
  x_Env :: "string list option"
  x_Timeout :: "int option"
  x_Process :: "nat option"

record Executor =
  ex_workDir :: string
  ex_tempDir :: string
  ex_running :: "string \<rightharpoonup> Cmd"

text \<open>
  What the host answers to the calls the executor makes: the ambient environment
  (\<^verbatim>\<open>os.Environ\<close>), the outcome of \<^verbatim>\<open>os.CreateTemp\<close> for a directory and a pattern
  (an error text or the new file's name), of \<^verbatim>\<open>io.WriteString\<close> on a file, of
  \<^verbatim>\<open>os.Chmod\<close>, the path \<^verbatim>\<open>exec.Command\<close> stores for a program name, the outcome of
  \<^verbatim>\<open>CombinedOutput\<close> (the output, the error if any, the exit code if a process state
  exists), the outcome of \<^verbatim>\<open>Process.Kill\<close>, and the clock's successive readings.
\<close>

record Host =
  h_Environ :: "string list"
  h_CreateTemp :: "string \<Rightarrow> string \<Rightarrow> string + string"
  h_WriteString :: "string \<Rightarrow> string \<Rightarrow> string option"
  h_Chmod :: "string \<Rightarrow> string option"
  h_LookPath :: "string \<Rightarrow> string"
  h_CombinedOutput :: "Cmd \<Rightarrow> string \<times> string option \<times> int option"
  h_Kill :: "nat \<Rightarrow> string option"
  h_Now :: "nat \<Rightarrow> Time"

text \<open>
  What the executor has done to the host: the temporary script files that exist, every
  temporary file created so far, the commands handed to the operating system in order,
  the processes killed, and the number of clock readings taken.
\<close>

record World =
  w_files :: "string list"
  w_created :: "string list"
  w_started :: "Cmd list"
  w_killed :: "nat list"
  w_ticks :: nat

definition Now :: "Host \<Rightarrow> World \<Rightarrow> Time \<times> World" where
  "Now h w = (h_Now h (w_ticks w), w\<lparr>w_ticks := Suc (w_ticks w)\<rparr>)"

definition os_Remove :: "string \<Rightarrow> World \<Rightarrow> World" where
  "os_Remove name w = w\<lparr>w_files := removeAll name (w_files w)\<rparr>"

text \<open>\<^verbatim>\<open>exec.Command(name, args...)\<close>: no directory, a nil environment, no context.\<close>

definition exec_Command :: "Host \<Rightarrow> string \<Rightarrow> string list \<Rightarrow> Cmd" where
  "exec_Command h name args =
     \<lparr>x_Path = h_LookPath h name, x_Args = name # args, x_Dir = '''',
      x_Env = None, x_Timeout = None, x_Process = None\<rparr>"

definition exec_CommandContext :: "Host \<Rightarrow> int \<Rightarrow> string \<Rightarrow> string list \<Rightarrow> Cmd" where
  "exec_CommandContext h seconds name args =
     (exec_Command h name args)\<lparr>x_Timeout := Some seconds\<rparr>"

definition createScriptFile ::
  "Host \<Rightarrow> Executor \<Rightarrow> string \<Rightarrow> string \<Rightarrow> World \<Rightarrow> (string + string) \<times> World" where
  "createScriptFile h e script ext w =
     (case h_CreateTemp h (ex_tempDir e) (''script_*.'' @ ext) of
        Inl err \<Rightarrow> (Inl err, w)
      | Inr name \<Rightarrow>
          (case h_WriteString h name script of
             Some err \<Rightarrow>
               (Inl err, os_Remove name (w\<lparr>w_files := name # w_files w,
                                           w_created := w_created w @ [name]\<rparr>))
           | None \<Rightarrow>
               (Inr name, w\<lparr>w_files := name # w_files w,
                            w_created := w_created w @ [name]\<rparr>)))"

text \<open>\<^verbatim>\<open>&Result{ID: cmd.ID, StartTime: time.Now()}\<close>, the first statement of each function.\<close>

definition newResult :: "Host \<Rightarrow> Command \<Rightarrow> World \<Rightarrow> Result \<times> World" where
  "newResult h cmd w =
     (case Now h w of
        (t, w1) \<Rightarrow>
          (\<lparr>r_ID = c_ID cmd, r_Success = False, r_ExitCode = 0, r_Output = '''', r_Error = '''',
            r_StartTime = t, r_EndTime = zeroTime, r_Duration = 0\<rparr>, w1))"

text \<open>
  The timeout block, the same in the three surfaces (lines 171-177, 227-233, 300-306):
  when the timeout is positive the command is replaced by a new one made by
  \<^verbatim>\<open>exec.CommandContext(ctx, execCmd.Path, execCmd.Args[1:]...)\<close>.
\<close>

definition withTimeout :: "Host \<Rightarrow> Command \<Rightarrow> Cmd \<Rightarrow> Cmd" where
  "withTimeout h cmd execCmd =
     (if c_Timeout cmd > 0
      then exec_CommandContext h (c_Timeout cmd) (x_Path execCmd) (tl (x_Args execCmd))
      else execCmd)"

text \<open>
  The capture block, the same in the three surfaces (lines 180-192, 236-248, 309-321):
  the command is run and its output, error and exit code are stored in the result.
\<close>

definition capture :: "Host \<Rightarrow> Cmd \<Rightarrow> Result \<Rightarrow> World \<Rightarrow> Result \<times> World" where
  "capture h execCmd result w =
     (case h_CombinedOutput h execCmd of
        (output, err, state) \<Rightarrow>
          (case err of
             Some msg \<Rightarrow>
               (result\<lparr>r_Output := output, r_Success := False, r_Error := msg,
                       r_ExitCode := (case state of Some code \<Rightarrow> code | None \<Rightarrow> r_ExitCode result)\<rparr>,
                w\<lparr>w_started := w_started w @ [execCmd]\<rparr>)
           | None \<Rightarrow>
               (result\<lparr>r_Output := output, r_Success := True, r_ExitCode := 0\<rparr>,
                w\<lparr>w_started := w_started w @ [execCmd]\<rparr>)))"

definition executeShell :: "Host \<Rightarrow> Executor \<Rightarrow> Command \<Rightarrow> World \<Rightarrow> Result \<times> World" where
  "executeShell h e cmd w =
     (case newResult h cmd w of
        (result, w1) \<Rightarrow>
          (case createScriptFile h e (c_Script cmd) ''sh'' w1 of
             (Inl err, w2) \<Rightarrow> (result\<lparr>r_Success := False, r_Error := err\<rparr>, w2)
           | (Inr scriptFile, w2) \<Rightarrow>
               (case h_Chmod h scriptFile of
                  Some err \<Rightarrow>
                    (result\<lparr>r_Success := False, r_Error := err\<rparr>, os_Remove scriptFile w2)
                | None \<Rightarrow>
                    (let execCmd0 = exec_Command h ''bash'' [scriptFile];
                         execCmd1 = execCmd0\<lparr>x_Dir :=
                           (if c_WorkingDir cmd \<noteq> '''' then c_WorkingDir cmd else ex_workDir e)\<rparr>;
                         execCmd2 = execCmd1\<lparr>x_Env := Some (h_Environ h @ c_Env cmd)\<rparr>;
                         execCmd3 = withTimeout h cmd execCmd2
                     in case capture h execCmd3 result w2 of
                          (result', w3) \<Rightarrow> (result', os_Remove scriptFile w3)))))"

definition executePowerShell :: "Host \<Rightarrow> Executor \<Rightarrow> Command \<Rightarrow> World \<Rightarrow> Result \<times> World" where
  "executePowerShell h e cmd w =
     (case newResult h cmd w of
        (result, w1) \<Rightarrow>
          (case createScriptFile h e (c_Script cmd) ''ps1'' w1 of
             (Inl err, w2) \<Rightarrow> (result\<lparr>r_Success := False, r_Error := err\<rparr>, w2)
           | (Inr scriptFile, w2) \<Rightarrow>
               (let execCmd0 = exec_Command h ''powershell''
                                 [''-ExecutionPolicy'', ''Bypass'', ''-File'', scriptFile];
                    execCmd1 = execCmd0\<lparr>x_Dir :=
                      (if c_WorkingDir cmd \<noteq> '''' then c_WorkingDir cmd else ex_workDir e)\<rparr>;
                    execCmd2 = execCmd1\<lparr>x_Env := Some (h_Environ h @ c_Env cmd)\<rparr>;
                    execCmd3 = withTimeout h cmd execCmd2
                in case capture h execCmd3 result w2 of
                     (result', w3) \<Rightarrow> (result', os_Remove scriptFile w3))))"

text \<open>The argument list of \<^verbatim>\<open>docker\<close> that \<^verbatim>\<open>executeContainer\<close> builds (lines 277-294).\<close>

definition dockerArgs :: "Command \<Rightarrow> string \<Rightarrow> string list" where
  "dockerArgs cmd scriptFile =
     [''exec'']
     @ (if c_User cmd \<noteq> '''' then [''-u'', c_User cmd] else [])
     @ (if c_WorkingDir cmd \<noteq> '''' then [''-w'', c_WorkingDir cmd] else [])
     @ concat (map (\<lambda>env. [''-e'', env]) (c_Env cmd))
     @ [c_ContainerID cmd, ''bash'', scriptFile]"

definition executeContainer :: "Host \<Rightarrow> Executor \<Rightarrow> Command \<Rightarrow> World \<Rightarrow> Result \<times> World" where
  "executeContainer h e cmd w =
     (case newResult h cmd w of
        (result, w1) \<Rightarrow>
          (if c_ContainerID cmd = ''''
           then (result\<lparr>r_Success := False,
                         r_Error := ''container ID is required for container commands''\<rparr>, w1)
           else
             (case createScriptFile h e (c_Script cmd) ''sh'' w1 of
                (Inl err, w2) \<Rightarrow> (result\<lparr>r_Success := False, r_Error := err\<rparr>, w2)
              | (Inr scriptFile, w2) \<Rightarrow>
                  (let execCmd0 = exec_Command h ''docker'' (dockerArgs cmd scriptFile);
                       execCmd1 = withTimeout h cmd execCmd0
                   in case capture h execCmd1 result w2 of
                        (result', w3) \<Rightarrow> (result', os_Remove scriptFile w3)))))"

text \<open>\<^verbatim>\<open>Execute\<close>; the two log lines are left out.\<close>

definition Execute :: "Host \<Rightarrow> Executor \<Rightarrow> Command \<Rightarrow> World \<Rightarrow> Result \<times> World" where
  "Execute h e cmd w =
     (case newResult h cmd w of
        (result0, w1) \<Rightarrow>
          (case (if c_Type cmd = CommandTypeShell then executeShell h e cmd w1
                 else if c_Type cmd = CommandTypePowerShell then executePowerShell h e cmd w1
                 else if c_Type cmd = CommandTypeContainer then executeContainer h e cmd w1
                 else (result0\<lparr>r_Success := False,
                               r_Error := ''unsupported command type: '' @ c_Type cmd\<rparr>, w1)) of
             (result, w2) \<Rightarrow>
               (case Now h w2 of
                  (t, w3) \<Rightarrow>
                    (result\<lparr>r_EndTime := t, r_Duration := Sub t (r_StartTime result)\<rparr>, w3))))"

text \<open>
  \<^verbatim>\<open>StopCommand\<close>: the error, the executor and the host afterwards. A failed kill returns
  the error and keeps the entry.
\<close>

definition StopCommand ::
  "Host \<Rightarrow> Executor \<Rightarrow> string \<Rightarrow> World \<Rightarrow> string option \<times> Executor \<times> World" where
  "StopCommand h e ident w =
     (case ex_running e ident of
        Some cmd \<Rightarrow>
          (case x_Process cmd of
             Some pid \<Rightarrow>
               (case h_Kill h pid of
                  Some err \<Rightarrow> (Some err, e, w)
                | None \<Rightarrow>
                    (None, e\<lparr>ex_running := (ex_running e)(ident := None)\<rparr>,
                     w\<lparr>w_killed := w_killed w @ [pid]\<rparr>))
           | None \<Rightarrow> (None, e\<lparr>ex_running := (ex_running e)(ident := None)\<rparr>, w))
      | None \<Rightarrow> (None, e, w))"

text \<open>The commands a call of \<open>Execute\<close> hands to the operating system.\<close>

definition launched :: "Host \<Rightarrow> Executor \<Rightarrow> Command \<Rightarrow> World \<Rightarrow> Cmd list" where
  "launched h e cmd w = drop (length (w_started w)) (w_started (snd (Execute h e cmd w)))"


subsection \<open>A concrete host and concrete commands\<close>

text \<open>
  A host on which everything succeeds: the environment holds one entry, every temporary
  file is created and written, \<^verbatim>\<open>bash\<close> and \<^verbatim>\<open>docker\<close> are found under \<^verbatim>\<open>/usr/bin\<close>, and every process
  prints nothing and exits with code 0.
\<close>

definition demoHost :: Host where
  "demoHost =
     \<lparr>h_Environ = [''PATH=/usr/bin''],
      h_CreateTemp = (\<lambda>dir pattern. Inr (dir @ ''/script_1'')),
      h_WriteString = (\<lambda>name content. None),
      h_Chmod = (\<lambda>name. None),
      h_LookPath = (\<lambda>name. if name = ''bash'' then ''/usr/bin/bash''
                            else if name = ''docker'' then ''/usr/bin/docker''
                            else name),
      h_CombinedOutput = (\<lambda>c. ('''', None, Some 0)),
      h_Kill = (\<lambda>pid. None),
      h_Now = (\<lambda>n. int n)\<rparr>"

definition demoExecutor :: Executor where
  "demoExecutor = \<lparr>ex_workDir = ''/work'', ex_tempDir = ''/tmp'', ex_running = Map.empty\<rparr>"

definition demoWorld :: World where
  "demoWorld = \<lparr>w_files = [], w_created = [], w_started = [], w_killed = [], w_ticks = 0\<rparr>"

text \<open>A shell command with one environment entry and a timeout given as a parameter.\<close>

definition shellCommand :: "int \<Rightarrow> Command" where
  "shellCommand seconds =
     \<lparr>c_ID = ''test-env'', c_Type = ''shell'', c_Script = ''echo $TEST_VAR'', c_Args = [],
      c_WorkingDir = '''', c_Timeout = seconds, c_ContainerID = '''', c_User = '''',
      c_Env = [''TEST_VAR=test_value'']\<rparr>"

text \<open>A container command with one environment entry and a container id given as a parameter.\<close>

definition containerCommand :: "string \<Rightarrow> Command" where
  "containerCommand container =
     \<lparr>c_ID = ''test-container'', c_Type = ''container'', c_Script = ''echo $TEST_VAR'',
      c_Args = [], c_WorkingDir = '''', c_Timeout = 0, c_ContainerID = container,
      c_User = '''', c_Env = [''TEST_VAR=test_value'']\<rparr>"


section \<open>Plugin registry\<close>

text \<open>
  The errors of package plugin: the sentinel values of \<^verbatim>\<open>errors.go\<close>, an error made
  elsewhere (by a plugin, the file system or the JSON decoder) given by its text, an
  error wrapped by \<^verbatim>\<open>fmt.Errorf("<prefix>: %w", err)\<close>, and the list of errors that
  \<^verbatim>\<open>StartAll\<close> and \<^verbatim>\<open>StopAll\<close> format with \<^verbatim>\<open>fmt.Errorf("<prefix>: %v", errors)\<close>.
\<close>

datatype error =
    ErrPluginNotFound
  | ErrPluginAlreadyExists
  | ErrPluginFactoryNotFound
  | ErrInvalidPluginInfo
  | ErrPluginNotStarted
  | ErrPluginAlreadyStarted
  | ErrPluginInitFailed
  | ErrPluginStartFailed
  | ErrPluginStopFailed
  | ErrInvalidCommand
  | ErrInvalidEvent
  | ErrPluginConfigNotFound
  | ErrPluginConfigInvalid
  | ErrorText string
  | Wrapped string error
  | Combined string "error list"

fun joinSpace :: "string list \<Rightarrow> string" where
  "joinSpace [] = ''''"
| "joinSpace [s] = s"
| "joinSpace (s # t # ss) = s @ '' '' @ joinSpace (t # ss)"

text \<open>The \<^verbatim>\<open>Error()\<close> text of an error.\<close>

fun errorText :: "error \<Rightarrow> string" where
  "errorText ErrPluginNotFound = ''plugin not found''"
| "errorText ErrPluginAlreadyExists = ''plugin already exists''"
| "errorText ErrPluginFactoryNotFound = ''plugin factory not found''"
| "errorText ErrInvalidPluginInfo = ''invalid plugin info''"
| "errorText ErrPluginNotStarted = ''plugin not started''"
| "errorText ErrPluginAlreadyStarted = ''plugin already started''"
| "errorText ErrPluginInitFailed = ''plugin initialization failed''"
| "errorText ErrPluginStartFailed = ''plugin start failed''"
| "errorText ErrPluginStopFailed = ''plugin stop failed''"
| "errorText ErrInvalidCommand = ''invalid command''"
| "errorText ErrInvalidEvent = ''invalid event''"
| "errorText ErrPluginConfigNotFound = ''plugin config not found''"
| "errorText ErrPluginConfigInvalid = ''plugin config invalid''"
| "errorText (ErrorText s) = s"
| "errorText (Wrapped prefix err) = prefix @ '': '' @ errorText err"
| "errorText (Combined prefix errs) = prefix @ '': ['' @ joinSpace (map errorText errs) @ '']''"

record PluginInfo =
  pin_Name :: string
  pin_Version :: string
  pin_Description :: string
  pin_Author :: string
  pin_License :: string
  pin_Homepage :: string
  pin_Tags :: "string list"
  pin_Config :: "(string \<times> string) list"

record PluginStatus =
  ps_Status :: string
  ps_StartTime :: Time
  ps_StopTime :: Time
  ps_Metrics :: jmap
  ps_LastError :: string
  ps_LastUpdated :: Time

text \<open>
  A plugin is any implementation of the interface \<^verbatim>\<open>Plugin\<close>. Its observable behaviour
  is a function of the calls made on it so far, so a plugin is modelled by its
  descriptor (\<open>None\<close> for a nil \<^verbatim>\<open>Info()\<close>), the history of the calls made on it, oldest
  first, and for each method the answer it gives after a history. The argument of
  \<open>CallInit\<close> is the plugin name the context's logger carries.
\<close>

datatype call =
    CallInit string
  | CallStart
  | CallStop
  | CallHandleCommand string jmap
  | CallHandleEvent string jmap
  | CallStatus
  | CallGetConfig

record Plugin =
  p_Info :: "PluginInfo option"
  p_calls :: "call list"
  p_Init :: "call list \<Rightarrow> string \<Rightarrow> error option"
  p_Start :: "call list \<Rightarrow> error option"
  p_Stop :: "call list \<Rightarrow> error option"
  p_HandleCommand :: "call list \<Rightarrow> string \<Rightarrow> jmap \<Rightarrow> jvalue \<times> error option"
  p_HandleEvent :: "call list \<Rightarrow> string \<Rightarrow> jmap \<Rightarrow> error option"
  p_Status :: "call list \<Rightarrow> PluginStatus option"
  p_GetConfig :: "call list \<Rightarrow> jmap option"

text \<open>A method call: the plugin's answer, and the plugin with the call in its history.\<close>

definition plugin_Init :: "Plugin \<Rightarrow> string \<Rightarrow> error option \<times> Plugin" where
  "plugin_Init p name = (p_Init p (p_calls p) name, p\<lparr>p_calls := p_calls p @ [CallInit name]\<rparr>)"

definition plugin_Start :: "Plugin \<Rightarrow> error option \<times> Plugin" where
  "plugin_Start p = (p_Start p (p_calls p), p\<lparr>p_calls := p_calls p @ [CallStart]\<rparr>)"

definition plugin_Stop :: "Plugin \<Rightarrow> error option \<times> Plugin" where
  "plugin_Stop p = (p_Stop p (p_calls p), p\<lparr>p_calls := p_calls p @ [CallStop]\<rparr>)"

definition plugin_HandleCommand ::
  "Plugin \<Rightarrow> string \<Rightarrow> jmap \<Rightarrow> (jvalue \<times> error option) \<times> Plugin" where
  "plugin_HandleCommand p command args =
     (p_HandleCommand p (p_calls p) command args,
      p\<lparr>p_calls := p_calls p @ [CallHandleCommand command args]\<rparr>)"

definition plugin_HandleEvent :: "Plugin \<Rightarrow> string \<Rightarrow> jmap \<Rightarrow> error option \<times> Plugin" where
  "plugin_HandleEvent p eventType data =
     (p_HandleEvent p (p_calls p) eventType data,
      p\<lparr>p_calls := p_calls p @ [CallHandleEvent eventType data]\<rparr>)"

definition plugin_Status :: "Plugin \<Rightarrow> PluginStatus option \<times> Plugin" where
  "plugin_Status p = (p_Status p (p_calls p), p\<lparr>p_calls := p_calls p @ [CallStatus]\<rparr>)"

definition plugin_GetConfig :: "Plugin \<Rightarrow> jmap option \<times> Plugin" where
  "plugin_GetConfig p = (p_GetConfig p (p_calls p), p\<lparr>p_calls := p_calls p @ [CallGetConfig]\<rparr>)"

text \<open>
  \<^verbatim>\<open>PluginInstance\<close>. The context is given by the plugin name of its logger (its agent
  is the manager's); \<open>None\<close> is a nil context.
\<close>

record PluginInstance =
  pi_Plugin :: Plugin
  pi_Context :: "string option"
  pi_Config :: jmap
  pi_Status :: PluginStatus
  pi_ConfigFile :: string

text \<open>
  A \<^verbatim>\<open>sync.RWMutex\<close> as one sequence of calls sees it: free, held by a writer, or held
  by a number of readers. \<open>Lock\<close> and \<open>RLock\<close> return \<open>None\<close> when the call blocks;
  with a single caller the holder is the caller itself, so a blocked call never returns.
\<close>

datatype RWMutex = Unlocked | Locked | RLocked nat

definition Lock :: "RWMutex \<Rightarrow> RWMutex option" where
  "Lock mu = (case mu of Unlocked \<Rightarrow> Some Locked | Locked \<Rightarrow> None | RLocked n \<Rightarrow> None)"

definition Unlock :: "RWMutex \<Rightarrow> RWMutex" where
  "Unlock mu = Unlocked"

definition RLock :: "RWMutex \<Rightarrow> RWMutex option" where
  "RLock mu =
     (case mu of
        Unlocked \<Rightarrow> Some (RLocked 1)
      | Locked \<Rightarrow> None
      | RLocked n \<Rightarrow> Some (RLocked (Suc n)))"

definition RUnlock :: "RWMutex \<Rightarrow> RWMutex" where
  "RUnlock mu =
     (case mu of
        RLocked (Suc (Suc n)) \<Rightarrow> RLocked (Suc n)
      | _ \<Rightarrow> Unlocked)"

text \<open>
  \<^verbatim>\<open>Manager\<close> of package plugin: the data directory of its configuration, the registry,
  its mutex, and with them the content of the plugins' configuration files on disk.
  The factories are left out.
\<close>

record Manager =
  pm_dataDir :: string
  pm_plugins :: "string \<rightharpoonup> PluginInstance"
  pm_mu :: RWMutex
  pm_files :: "string \<rightharpoonup> string"

text \<open>
  What the platform answers to the manager: \<^verbatim>\<open>filepath.Join\<close> and \<^verbatim>\<open>filepath.Dir\<close>, the
  failures of \<^verbatim>\<open>os.MkdirAll\<close>, of \<^verbatim>\<open>os.ReadFile\<close> (other than a missing file) and of
  \<^verbatim>\<open>os.WriteFile\<close>, and the JSON decoder and encoder.
\<close>

record Sys =
  sys_Join :: "string list \<Rightarrow> string"
  sys_Dir :: "string \<Rightarrow> string"
  sys_MkdirAll :: "string \<Rightarrow> error option"
  sys_ReadFail :: "string \<Rightarrow> error option"
  sys_WriteFail :: "string \<Rightarrow> error option"
  sys_Unmarshal :: "string \<Rightarrow> error + jmap"
  sys_Marshal :: "jmap \<Rightarrow> error + string"

definition NewManager :: "string \<Rightarrow> Manager" where
  "NewManager dataDir =
     \<lparr>pm_dataDir = dataDir, pm_plugins = Map.empty, pm_mu = Unlocked, pm_files = Map.empty\<rparr>"

text \<open>
  An instance is held by pointer: a write through the pointer is a write to the entry
  of the registry.
\<close>

definition updInstance :: "string \<Rightarrow> (PluginInstance \<Rightarrow> PluginInstance) \<Rightarrow> Manager \<Rightarrow> Manager" where
  "updInstance name f m =
     (case pm_plugins m name of
        None \<Rightarrow> m
      | Some i \<Rightarrow> m\<lparr>pm_plugins := (pm_plugins m)(name \<mapsto> f i)\<rparr>)"

text \<open>
  \<^verbatim>\<open>m.mu.Lock(); defer m.mu.Unlock()\<close> around a body; \<open>None\<close> when the lock is never
  obtained or the body never returns.
\<close>

definition withLock :: "Manager \<Rightarrow> (Manager \<Rightarrow> ('a \<times> Manager) option) \<Rightarrow> ('a \<times> Manager) option" where
  "withLock m body =
     (case Lock (pm_mu m) of
        None \<Rightarrow> None
      | Some mu \<Rightarrow>
          (case body (m\<lparr>pm_mu := mu\<rparr>) of
             None \<Rightarrow> None
           | Some (r, m') \<Rightarrow> Some (r, m'\<lparr>pm_mu := Unlock (pm_mu m')\<rparr>)))"

text \<open>
  \<^verbatim>\<open>m.mu.RLock(); instance, exists := m.plugins[name]; m.mu.RUnlock()\<close>: the entry read
  and the manager afterwards.
\<close>

definition lookupInstance :: "Manager \<Rightarrow> string \<Rightarrow> (PluginInstance option \<times> Manager) option" where
  "lookupInstance m name =
     (case RLock (pm_mu m) of
        None \<Rightarrow> None
      | Some mu \<Rightarrow> Some (pm_plugins m name, m\<lparr>pm_mu := RUnlock mu\<rparr>))"

text \<open>\<^verbatim>\<open>Register\<close>; \<open>now\<close> is the clock's reading.\<close>

definition Register :: "Sys \<Rightarrow> Time \<Rightarrow> Manager \<Rightarrow> Plugin \<Rightarrow> (error option \<times> Manager) option" where
  "Register sys now m plugin =
     withLock m (\<lambda>m1.
       case p_Info plugin of
         None \<Rightarrow> Some (Some ErrInvalidPluginInfo, m1)
       | Some info \<Rightarrow>
           (case pm_plugins m1 (pin_Name info) of
              Some existing \<Rightarrow> Some (Some ErrPluginAlreadyExists, m1)
            | None \<Rightarrow>
                Some (None,
                  m1\<lparr>pm_plugins := (pm_plugins m1)(pin_Name info \<mapsto>
                    \<lparr>pi_Plugin = plugin,
                     pi_Context = None,
                     pi_Config = Map.empty,
                     pi_Status =
                       \<lparr>ps_Status = ''stopped'', ps_StartTime = zeroTime, ps_StopTime = zeroTime,
                        ps_Metrics = Map.empty, ps_LastError = '''', ps_LastUpdated = now\<rparr>,
                     pi_ConfigFile =
                       sys_Join sys [pm_dataDir m1, ''plugins'', pin_Name info @ ''.json'']\<rparr>)\<rparr>)))"

text \<open>\<^verbatim>\<open>Unregister\<close>; a failure of the plugin's \<^verbatim>\<open>Stop\<close> is only logged.\<close>

definition Unregister :: "Manager \<Rightarrow> string \<Rightarrow> (error option \<times> Manager) option" where
  "Unregister m pluginName =
     withLock m (\<lambda>m1.
       case pm_plugins m1 pluginName of
         None \<Rightarrow> Some (Some ErrPluginNotFound, m1)
       | Some instance \<Rightarrow>
           (let m2 = (if ps_Status (pi_Status instance) = ''running''
                      then updInstance pluginName
                             (\<lambda>i. i\<lparr>pi_Plugin := snd (plugin_Stop (pi_Plugin instance))\<rparr>) m1
                      else m1)
            in Some (None, m2\<lparr>pm_plugins := (pm_plugins m2)(pluginName := None)\<rparr>)))"

text \<open>\<^verbatim>\<open>LoadPluginConfig\<close>. It takes the read lock itself.\<close>

definition LoadPluginConfig :: "Sys \<Rightarrow> Manager \<Rightarrow> string \<Rightarrow> (error option \<times> Manager) option" where
  "LoadPluginConfig sys m name =
     (case lookupInstance m name of
        None \<Rightarrow> None
      | Some (None, m1) \<Rightarrow> Some (Some ErrPluginNotFound, m1)
      | Some (Some instance, m1) \<Rightarrow>
          (case sys_MkdirAll sys (sys_Dir sys (pi_ConfigFile instance)) of
             Some err \<Rightarrow> Some (Some err, m1)
           | None \<Rightarrow>
               (case sys_ReadFail sys (pi_ConfigFile instance) of
                  Some err \<Rightarrow> Some (Some err, m1)
                | None \<Rightarrow>
                    (case pm_files m1 (pi_ConfigFile instance) of
                       None \<Rightarrow> Some (None, m1)
                     | Some data \<Rightarrow>
                         (case sys_Unmarshal sys data of
                            Inl err \<Rightarrow> Some (Some err, m1)
                          | Inr config \<Rightarrow>
                              Some (None, updInstance name (\<lambda>i. i\<lparr>pi_Config := config\<rparr>) m1))))))"

text \<open>\<^verbatim>\<open>SavePluginConfig\<close>. It takes the read lock itself.\<close>

definition SavePluginConfig :: "Sys \<Rightarrow> Manager \<Rightarrow> string \<Rightarrow> (error option \<times> Manager) option" where
  "SavePluginConfig sys m name =
     (case lookupInstance m name of
        None \<Rightarrow> None
      | Some (None, m1) \<Rightarrow> Some (Some ErrPluginNotFound, m1)
      | Some (Some instance, m1) \<Rightarrow>
          (case plugin_GetConfig (pi_Plugin instance) of
             (got, plugin') \<Rightarrow>
               (let config = (case got of None \<Rightarrow> Map.empty | Some c \<Rightarrow> c);
                    m2 = updInstance name (\<lambda>i. i\<lparr>pi_Plugin := plugin'\<rparr>) m1
                in case sys_MkdirAll sys (sys_Dir sys (pi_ConfigFile instance)) of
                     Some err \<Rightarrow> Some (Some err, m2)
                   | None \<Rightarrow>
                       (case sys_Marshal sys config of
                          Inl err \<Rightarrow> Some (Some err, m2)
                        | Inr data \<Rightarrow>
                            (case sys_WriteFail sys (pi_ConfigFile instance) of
                               Some err \<Rightarrow> Some (Some err, m2)
                             | None \<Rightarrow>
                                 Some (None,
                                   m2\<lparr>pm_files := (pm_files m2)(pi_ConfigFile instance \<mapsto> data)\<rparr>))))))"

text \<open>
  \<^verbatim>\<open>StartPlugin\<close>. The write lock is held for the whole body, the call of
  \<^verbatim>\<open>LoadPluginConfig\<close> included; a failure to load is only logged.
\<close>

definition StartPlugin :: "Sys \<Rightarrow> Time \<Rightarrow> Manager \<Rightarrow> string \<Rightarrow> (error option \<times> Manager) option" where
  "StartPlugin sys now m name =
     withLock m (\<lambda>m1.
       case pm_plugins m1 name of
         None \<Rightarrow> Some (Some ErrPluginNotFound, m1)
       | Some instance \<Rightarrow>
           if ps_Status (pi_Status instance) = ''running''
           then Some (Some ErrPluginAlreadyStarted, m1)
           else
             (case LoadPluginConfig sys m1 name of
                None \<Rightarrow> None
              | Some (loadErr, m2) \<Rightarrow>
                  (let m3 = updInstance name (\<lambda>i. i\<lparr>pi_Context := Some name\<rparr>) m2
                   in case plugin_Init (pi_Plugin instance) name of
                        (Some err, plugin1) \<Rightarrow>
                          Some (Some (Wrapped (''failed to init plugin '' @ name) err),
                            updInstance name
                              (\<lambda>i. i\<lparr>pi_Plugin := plugin1,
                                     pi_Status := (pi_Status i)\<lparr>ps_Status := ''error'',
                                       ps_LastError := errorText err\<rparr>\<rparr>) m3)
                      | (None, plugin1) \<Rightarrow>
                          (case plugin_Start plugin1 of
                             (Some err, plugin2) \<Rightarrow>
                               Some (Some (Wrapped (''failed to start plugin '' @ name) err),
                                 updInstance name
                                   (\<lambda>i. i\<lparr>pi_Plugin := plugin2,
                                          pi_Status := (pi_Status i)\<lparr>ps_Status := ''error'',
                                            ps_LastError := errorText err\<rparr>\<rparr>) m3)
                           | (None, plugin2) \<Rightarrow>
                               Some (None,
                                 updInstance name
                                   (\<lambda>i. i\<lparr>pi_Plugin := plugin2,
                                          pi_Status := (pi_Status i)\<lparr>ps_Status := ''running'',
                                            ps_StartTime := now, ps_LastError := ''''\<rparr>\<rparr>) m3)))))"

text \<open>
  \<^verbatim>\<open>StopPlugin\<close>. The write lock is held for the whole body, the call of
  \<^verbatim>\<open>SavePluginConfig\<close> included; a failure to save is only logged.
\<close>

definition StopPlugin :: "Sys \<Rightarrow> Manager \<Rightarrow> string \<Rightarrow> (error option \<times> Manager) option" where
  "StopPlugin sys m name =
     withLock m (\<lambda>m1.
       case pm_plugins m1 name of
         None \<Rightarrow> Some (Some ErrPluginNotFound, m1)
       | Some instance \<Rightarrow>
           if ps_Status (pi_Status instance) \<noteq> ''running''
           then Some (Some ErrPluginNotStarted, m1)
           else
             (case plugin_Stop (pi_Plugin instance) of
                (Some err, plugin1) \<Rightarrow>
                  Some (Some (Wrapped (''failed to stop plugin '' @ name) err),
                    updInstance name
                      (\<lambda>i. i\<lparr>pi_Plugin := plugin1,
                             pi_Status := (pi_Status i)\<lparr>ps_Status := ''error'',
                               ps_LastError := errorText err\<rparr>\<rparr>) m1)
              | (None, plugin1) \<Rightarrow>
                  (case SavePluginConfig sys
                          (updInstance name (\<lambda>i. i\<lparr>pi_Plugin := plugin1\<rparr>) m1) name of
                     None \<Rightarrow> None
                   | Some (saveErr, m2) \<Rightarrow>
                       Some (None,
                         updInstance name
                           (\<lambda>i. i\<lparr>pi_Status := (pi_Status i)\<lparr>ps_Status := ''stopped'',
                                    ps_LastError := ''''\<rparr>\<rparr>) m2))))"

text \<open>
  The loop of \<^verbatim>\<open>StartAll\<close> over the names collected, with the errors gathered so far.
\<close>

fun startEach ::
  "Sys \<Rightarrow> Time \<Rightarrow> Manager \<Rightarrow> string list \<Rightarrow> error list \<Rightarrow> (error list \<times> Manager) option" where
  "startEach sys now m [] errors = Some (errors, m)"
| "startEach sys now m (name # names) errors =
     (case StartPlugin sys now m name of
        None \<Rightarrow> None
      | Some (None, m') \<Rightarrow> startEach sys now m' names errors
      | Some (Some err, m') \<Rightarrow>
          startEach sys now m' names
            (errors @ [Wrapped (''failed to start plugin '' @ name) err]))"

text \<open>
  \<^verbatim>\<open>StartAll\<close>. Go visits the keys of a map in an unspecified order: \<open>names\<close> is the
  order in which the first loop meets the keys of the registry.
\<close>

definition StartAll ::
  "Sys \<Rightarrow> Time \<Rightarrow> Manager \<Rightarrow> string list \<Rightarrow> (error option \<times> Manager) option" where
  "StartAll sys now m names =
     (case RLock (pm_mu m) of
        None \<Rightarrow> None
      | Some mu \<Rightarrow>
          (case startEach sys now (m\<lparr>pm_mu := RUnlock mu\<rparr>) names [] of
             None \<Rightarrow> None
           | Some (errors, m') \<Rightarrow>
               Some (if length errors > 0
                     then Some (Combined ''failed to start some plugins'' errors)
                     else None, m')))"

text \<open>
  \<^verbatim>\<open>GetPluginStatus\<close>: the plugin is asked for its status, which replaces the
  instance's unless it is nil. The instance then shares the status object with the
  plugin; the model stores its value at the time of the call.
\<close>

definition GetPluginStatus ::
  "Manager \<Rightarrow> string \<Rightarrow> ((PluginStatus option \<times> error option) \<times> Manager) option" where
  "GetPluginStatus m name =
     (case RLock (pm_mu m) of
        None \<Rightarrow> None
      | Some mu \<Rightarrow>
          (case pm_plugins m name of
             None \<Rightarrow> Some ((None, Some ErrPluginNotFound), m\<lparr>pm_mu := RUnlock mu\<rparr>)
           | Some instance \<Rightarrow>
               (case plugin_Status (pi_Plugin instance) of
                  (reported, plugin1) \<Rightarrow>
                    (let status = (case reported of None \<Rightarrow> pi_Status instance | Some s \<Rightarrow> s)
                     in Some ((Some status, None),
                          (updInstance name
                             (\<lambda>i. i\<lparr>pi_Plugin := plugin1, pi_Status := status\<rparr>) m)
                          \<lparr>pm_mu := RUnlock mu\<rparr>)))))"

text \<open>\<^verbatim>\<open>SendCommand\<close>: the result, the error, and the manager afterwards.\<close>

definition SendCommand ::
  "Manager \<Rightarrow> string \<Rightarrow> string \<Rightarrow> jmap \<Rightarrow> ((jvalue \<times> error option) \<times> Manager) option" where
  "SendCommand m pluginName command args =
     (case lookupInstance m pluginName of
        None \<Rightarrow> None
      | Some (None, m1) \<Rightarrow> Some ((JNull, Some ErrPluginNotFound), m1)
      | Some (Some instance, m1) \<Rightarrow>
          if ps_Status (pi_Status instance) \<noteq> ''running''
          then Some ((JNull, Some ErrPluginNotStarted), m1)
          else
            (case plugin_HandleCommand (pi_Plugin instance) command args of
               (answer, plugin1) \<Rightarrow>
                 Some (answer, updInstance pluginName (\<lambda>i. i\<lparr>pi_Plugin := plugin1\<rparr>) m1)))"

text \<open>\<^verbatim>\<open>SendEvent\<close>: the error, and the manager afterwards.\<close>

definition SendEvent ::
  "Manager \<Rightarrow> string \<Rightarrow> string \<Rightarrow> jmap \<Rightarrow> (error option \<times> Manager) option" where
  "SendEvent m pluginName eventType data =
     (case lookupInstance m pluginName of
        None \<Rightarrow> None
      | Some (None, m1) \<Rightarrow> Some (Some ErrPluginNotFound, m1)
      | Some (Some instance, m1) \<Rightarrow>
          if ps_Status (pi_Status instance) \<noteq> ''running''
          then Some (Some ErrPluginNotStarted, m1)
          else
            (case plugin_HandleEvent (pi_Plugin instance) eventType data of
               (answer, plugin1) \<Rightarrow>
                 Some (answer, updInstance pluginName (\<lambda>i. i\<lparr>pi_Plugin := plugin1\<rparr>) m1)))"

text \<open>
  The states a manager goes through when its operations are called one after another,
  each call starting after the one before has returned. Between two calls the status
  record of an instance can change without the manager acting, since after
  \<^verbatim>\<open>GetPluginStatus\<close> the instance shares it with the plugin: the last rule.
\<close>

inductive reachable :: "Manager \<Rightarrow> bool" where
  r_new: "reachable (NewManager dataDir)"
| r_Register: "reachable m \<Longrightarrow> Register sys now m plugin = Some (err, m') \<Longrightarrow> reachable m'"
| r_Unregister: "reachable m \<Longrightarrow> Unregister m name = Some (err, m') \<Longrightarrow> reachable m'"
| r_StartPlugin: "reachable m \<Longrightarrow> StartPlugin sys now m name = Some (err, m') \<Longrightarrow> reachable m'"
| r_StopPlugin: "reachable m \<Longrightarrow> StopPlugin sys m name = Some (err, m') \<Longrightarrow> reachable m'"
| r_LoadPluginConfig:
    "reachable m \<Longrightarrow> LoadPluginConfig sys m name = Some (err, m') \<Longrightarrow> reachable m'"
| r_SavePluginConfig:
    "reachable m \<Longrightarrow> SavePluginConfig sys m name = Some (err, m') \<Longrightarrow> reachable m'"
| r_GetPluginStatus: "reachable m \<Longrightarrow> GetPluginStatus m name = Some (res, m') \<Longrightarrow> reachable m'"
| r_SendCommand:
    "reachable m \<Longrightarrow> SendCommand m name command args = Some (res, m') \<Longrightarrow> reachable m'"
| r_SendEvent:
    "reachable m \<Longrightarrow> SendEvent m name eventType data = Some (err, m') \<Longrightarrow> reachable m'"
| r_status:
    "reachable m \<Longrightarrow> reachable (updInstance name (\<lambda>i. i\<lparr>pi_Status := status\<rparr>) m)"

text \<open>The descriptor name of a registered instance, if its plugin has a descriptor.\<close>

definition descriptorName :: "PluginInstance \<Rightarrow> string option" where
  "descriptorName i = map_option pin_Name (p_Info (pi_Plugin i))"


text \<open>
  The invariant behind "no two registered plugins share a name": every entry of the
  registry is filed under the name of its plugin's descriptor.
\<close>

definition filedByName :: "Manager \<Rightarrow> bool" where
  "filedByName m \<longleftrightarrow> (\<forall>name i. pm_plugins m name = Some i \<longrightarrow> descriptorName i = Some name)"

subsection \<open>A concrete plugin and concrete registries\<close>

definition demoSys :: Sys where
  "demoSys =
     \<lparr>sys_Join = (\<lambda>parts. concat (map (\<lambda>part. ''/'' @ part) parts)),
      sys_Dir = (\<lambda>path. ''/data/plugins''),
      sys_MkdirAll = (\<lambda>path. None),
      sys_ReadFail = (\<lambda>path. None),
      sys_WriteFail = (\<lambda>path. None),
      sys_Unmarshal = (\<lambda>data. Inr Map.empty),
      sys_Marshal = (\<lambda>config. Inr ''{}'')\<rparr>"

text \<open>A plugin named "demo" that answers every command with the command's name.\<close>

definition demoPlugin :: Plugin where
  "demoPlugin =
     \<lparr>p_Info = Some \<lparr>pin_Name = ''demo'', pin_Version = ''1.0.0'', pin_Description = '''',
                     pin_Author = '''', pin_License = '''', pin_Homepage = '''',
                     pin_Tags = [], pin_Config = []\<rparr>,
      p_calls = [],
      p_Init = (\<lambda>history name. None),
      p_Start = (\<lambda>history. None),
      p_Stop = (\<lambda>history. None),
      p_HandleCommand = (\<lambda>history command args. (JStr command, None)),
      p_HandleEvent = (\<lambda>history eventType data. None),
      p_Status = (\<lambda>history. None),
      p_GetConfig = (\<lambda>history. None)\<rparr>"

text \<open>The registry holding the demo plugin alone, with the given status and call history.\<close>

definition demoRegistry :: "string \<Rightarrow> call list \<Rightarrow> Manager" where
  "demoRegistry status history =
     \<lparr>pm_dataDir = ''data'',
      pm_plugins =
        [''demo'' \<mapsto>
           \<lparr>pi_Plugin = demoPlugin\<lparr>p_calls := history\<rparr>,
            pi_Context = None,
            pi_Config = Map.empty,
            pi_Status =
              \<lparr>ps_Status = status, ps_StartTime = 0, ps_StopTime = 0,
               ps_Metrics = Map.empty, ps_LastError = '''', ps_LastUpdated = 0\<rparr>,
            pi_ConfigFile = ''/data/plugins/demo.json''\<rparr>],
      pm_mu = Unlocked,
      pm_files = Map.empty\<rparr>"


section \<open>Scheduler plugin\<close>

text \<open>
  \<^verbatim>\<open>TaskInfo\<close>; the last result and the metadata are left out: the modelled commands
  do not touch them. \<open>t_EntryID\<close> is the \<^verbatim>\<open>cron.EntryID\<close>, 0 when the task has no entry.
\<close>

record TaskInfo =
  t_ID :: string
  t_Name :: string
  t_Description :: string
  t_CronExpr :: string
  t_Command :: string
  t_Args :: "string list"
  t_Type :: string
  t_Enabled :: bool
  t_Status :: string
  t_LastRun :: Time
  t_NextRun :: Time
  t_RunCount :: int
  t_SuccessCount :: int
  t_FailureCount :: int
  t_EntryID :: int

text \<open>
  What the cron library (\<^verbatim>\<open>github.com/robfig/cron/v3\<close>, not part of the repository)
  answers: the error, if any, of \<^verbatim>\<open>cron.ParseStandard\<close> on an expression; the error, if
  any, of the parser of the plugin's own scheduler, made by \<^verbatim>\<open>cron.New(cron.WithSeconds())\<close>,
  which \<^verbatim>\<open>AddFunc\<close> uses; and the next activation time an entry reports.
\<close>

record CronLib =
  cron_ParseStandard :: "string \<Rightarrow> string option"
  cron_ParseSeconds :: "string \<Rightarrow> string option"
  cron_Next :: "string \<Rightarrow> Time"

text \<open>
  The scheduler \<^verbatim>\<open>cron.Cron\<close>: its entries, each with its expression and the id of the
  task its function runs, and the last entry id given out.
\<close>

record Cron =
  cr_entries :: "int \<rightharpoonup> string \<times> string"
  cr_nextID :: int

record SchedulerPlugin =
  sp_tasks :: "string \<rightharpoonup> TaskInfo"
  sp_scheduler :: Cron

definition cron_AddFunc :: "CronLib \<Rightarrow> Cron \<Rightarrow> string \<Rightarrow> string \<Rightarrow> (string + int) \<times> Cron" where
  "cron_AddFunc lib c spec taskID =
     (case cron_ParseSeconds lib spec of
        Some err \<Rightarrow> (Inl err, c)
      | None \<Rightarrow>
          (Inr (cr_nextID c + 1),
           c\<lparr>cr_nextID := cr_nextID c + 1,
             cr_entries := (cr_entries c)(cr_nextID c + 1 \<mapsto> (spec, taskID))\<rparr>))"

definition cron_Remove :: "Cron \<Rightarrow> int \<Rightarrow> Cron" where
  "cron_Remove c entryID = c\<lparr>cr_entries := (cr_entries c)(entryID := None)\<rparr>"

text \<open>The type assertions \<^verbatim>\<open>v.(string)\<close> and \<^verbatim>\<open>v.(bool)\<close> on an entry of the arguments.\<close>

definition asString :: "jvalue option \<Rightarrow> string option" where
  "asString v = (case v of Some (JStr s) \<Rightarrow> Some s | _ \<Rightarrow> None)"

definition asBool :: "jvalue option \<Rightarrow> bool option" where
  "asBool v = (case v of Some (JBool b) \<Rightarrow> Some b | _ \<Rightarrow> None)"

text \<open>The strings among the elements of \<^verbatim>\<open>args["args"]\<close>, when that is an array.\<close>

fun stringsOf :: "jvalue list \<Rightarrow> string list" where
  "stringsOf [] = []"
| "stringsOf (JStr s # vs) = s # stringsOf vs"
| "stringsOf (v # vs) = stringsOf vs"

text \<open>
  \<^verbatim>\<open>addToScheduler\<close>. The task is passed by pointer and is an entry of the task table:
  it is named here by its id, and the writes go to the table.
\<close>

definition addToScheduler ::
  "CronLib \<Rightarrow> SchedulerPlugin \<Rightarrow> string \<Rightarrow> string option \<times> SchedulerPlugin" where
  "addToScheduler lib p taskID =
     (case sp_tasks p taskID of
        None \<Rightarrow> (None, p)
      | Some task \<Rightarrow>
          (case cron_AddFunc lib (sp_scheduler p) (t_CronExpr task) taskID of
             (Inl err, c) \<Rightarrow> (Some err, p\<lparr>sp_scheduler := c\<rparr>)
           | (Inr entryID, c) \<Rightarrow>
               (None,
                p\<lparr>sp_scheduler := c,
                  sp_tasks := (sp_tasks p)(taskID \<mapsto>
                    task\<lparr>t_EntryID := entryID, t_NextRun := cron_Next lib (t_CronExpr task)\<rparr>)\<rparr>)))"

text \<open>
  \<^verbatim>\<open>handleAddTask\<close>; \<open>taskID\<close> is the id \<^verbatim>\<open>generateID\<close> returns. The result is the error
  text or the answer, and the plugin afterwards.
\<close>

definition handleAddTask ::
  "CronLib \<Rightarrow> string \<Rightarrow> SchedulerPlugin \<Rightarrow> jmap \<Rightarrow> (string + jvalue) \<times> SchedulerPlugin" where
  "handleAddTask lib taskID p args =
     (case asString (args ''name'') of
        None \<Rightarrow> (Inl ''name is required'', p)
      | Some name \<Rightarrow>
     (case asString (args ''cron_expr'') of
        None \<Rightarrow> (Inl ''cron_expr is required'', p)
      | Some cronExpr \<Rightarrow>
     (case asString (args ''command'') of
        None \<Rightarrow> (Inl ''command is required'', p)
      | Some command \<Rightarrow>
          (let description = (case asString (args ''description'') of Some d \<Rightarrow> d | None \<Rightarrow> '''');
               taskType0 = (case asString (args ''type'') of Some t \<Rightarrow> t | None \<Rightarrow> '''');
               taskType = (if taskType0 = '''' then ''shell'' else taskType0);
               enabled = (case asBool (args ''enabled'') of Some b \<Rightarrow> b | None \<Rightarrow> False)
           in case cron_ParseStandard lib cronExpr of
                Some err \<Rightarrow> (Inl (''invalid cron expression: '' @ err), p)
              | None \<Rightarrow>
                  (let task =
                         \<lparr>t_ID = taskID, t_Name = name, t_Description = description,
                          t_CronExpr = cronExpr, t_Command = command,
                          t_Args = (case args ''args'' of Some (JArr vs) \<Rightarrow> stringsOf vs | _ \<Rightarrow> []),
                          t_Type = taskType, t_Enabled = enabled, t_Status = ''active'',
                          t_LastRun = zeroTime, t_NextRun = zeroTime, t_RunCount = 0,
                          t_SuccessCount = 0, t_FailureCount = 0, t_EntryID = 0\<rparr>;
                       p1 = p\<lparr>sp_tasks := (sp_tasks p)(taskID \<mapsto> task)\<rparr>;
                       answer = JObj [(''id'', JStr taskID), (''name'', JStr name),
                                      (''message'', JStr ''Task added successfully'')]
                   in if enabled
                      then (case addToScheduler lib p1 taskID of
                              (Some err, p2) \<Rightarrow> (Inl err, p2)
                            | (None, p2) \<Rightarrow> (Inr answer, p2))
                      else (Inr answer, p1))))))"

text \<open>
  \<^verbatim>\<open>handleUpdateTask\<close>. \<^verbatim>\<open>task\<close> is a pointer into the task table, so each assignment
  to a field is a write to the table: \<open>task1\<close>, \<open>task2\<close>, ... are the entry after each
  assignment, and every return stores the entry reached.
\<close>

definition handleUpdateTask ::
  "CronLib \<Rightarrow> SchedulerPlugin \<Rightarrow> jmap \<Rightarrow> (string + jvalue) \<times> SchedulerPlugin" where
  "handleUpdateTask lib p args =
     (case asString (args ''id'') of
        None \<Rightarrow> (Inl ''id is required'', p)
      | Some ident \<Rightarrow>
     (case sp_tasks p ident of
        None \<Rightarrow> (Inl ''task not found'', p)
      | Some task \<Rightarrow>
          (let task1 = (case asString (args ''name'') of
                          Some name \<Rightarrow> task\<lparr>t_Name := name\<rparr> | None \<Rightarrow> task);
               task2 = (case asString (args ''description'') of
                          Some description \<Rightarrow> task1\<lparr>t_Description := description\<rparr>
                        | None \<Rightarrow> task1)
           in case (case asString (args ''cron_expr'') of
                      Some cronExpr \<Rightarrow>
                        (case cron_ParseStandard lib cronExpr of
                           Some err \<Rightarrow> Inl err
                         | None \<Rightarrow> Inr (task2\<lparr>t_CronExpr := cronExpr\<rparr>))
                    | None \<Rightarrow> Inr task2) of
                Inl err \<Rightarrow>
                  (Inl (''invalid cron expression: '' @ err),
                   p\<lparr>sp_tasks := (sp_tasks p)(ident \<mapsto> task2)\<rparr>)
              | Inr task3 \<Rightarrow>
                  (let task4 = (case asString (args ''command'') of
                                  Some command \<Rightarrow> task3\<lparr>t_Command := command\<rparr>
                                | None \<Rightarrow> task3);
                       task5 = (case asString (args ''type'') of
                                  Some taskType \<Rightarrow> task4\<lparr>t_Type := taskType\<rparr>
                                | None \<Rightarrow> task4);
                       p1 = p\<lparr>sp_tasks := (sp_tasks p)(ident \<mapsto> task5)\<rparr>;
                       answer = JObj [(''id'', JStr ident),
                                      (''message'', JStr ''Task updated successfully'')]
                   in if t_Enabled task5 \<and> t_EntryID task5 \<noteq> 0
                      then (case addToScheduler lib
                                   (p1\<lparr>sp_scheduler :=
                                        cron_Remove (sp_scheduler p1) (t_EntryID task5)\<rparr>) ident of
                              (Some err, p2) \<Rightarrow> (Inl err, p2)
                            | (None, p2) \<Rightarrow> (Inr answer, p2))
                      else (Inr answer, p1)))))"

subsection \<open>A concrete scheduler\<close>

text \<open>
  A cron library that accepts the expression of the repository's test and rejects
  every other one with the message the library gives for a wrong number of fields.
\<close>

definition demoCron :: CronLib where
  "demoCron =
     \<lparr>cron_ParseStandard =
        (\<lambda>spec. if spec = ''*/1 * * * *'' then None
                 else Some (''expected exactly 5 fields: ['' @ spec @ '']'')),
      cron_ParseSeconds =
        (\<lambda>spec. if spec = ''0 */1 * * * *'' then None
                 else Some (''expected exactly 6 fields: ['' @ spec @ '']'')),
      cron_Next = (\<lambda>spec. 60 * Second)\<rparr>"

text \<open>A scheduler plugin holding one disabled task with the given name.\<close>

definition demoScheduler :: "string \<Rightarrow> SchedulerPlugin" where
  "demoScheduler name =
     \<lparr>sp_tasks =
        [''task_1'' \<mapsto>
           \<lparr>t_ID = ''task_1'', t_Name = name, t_Description = '''',
            t_CronExpr = ''*/1 * * * *'', t_Command = ''echo hello'', t_Args = [],
            t_Type = ''shell'', t_Enabled = False, t_Status = ''active'',
            t_LastRun = 0, t_NextRun = 0, t_RunCount = 0, t_SuccessCount = 0,
            t_FailureCount = 0, t_EntryID = 0\<rparr>],
      sp_scheduler = \<lparr>cr_entries = Map.empty, cr_nextID = 0\<rparr>\<rparr>"


section \<open>Theorems\<close>

subsection \<open>Strings\<close>

lemma string_less_lexord:
  "string_less a b \<longleftrightarrow> (a, b) \<in> lexord {(x, y). (of_char x :: nat) < of_char y}"
  by (induction a b rule: string_less.induct) auto

lemma string_less_irrefl: "\<not> string_less a a"
  by (induction a) auto

subsection \<open>Updater plugin\<close>

text \<open>
  C8. \<open>compareVersions v1 v2\<close> is 0 when the two strings are equal, 1 when \<open>v1\<close> is
  lexicographically greater, and -1 otherwise; on "10.0.0" and "2.0.0" it returns -1;
  and when the check offers an update, the update is reported available exactly when
  the offered version string is lexicographically greater than the current one.
\<close>

theorem compareVersions_lexical:
  "compareVersions v1 v2 = (if v1 = v2 then 0 else if lex_greater v1 v2 then 1 else - 1)
   \<and> compareVersions ''10.0.0'' ''2.0.0'' = - 1
   \<and> (check p = Inr (Some u) \<longrightarrow>
        fst (isUpdateAvailable_with check p) = lex_greater (ui_Version u) (up_currentVersion p))"
proof (intro conjI impI)
  show "compareVersions v1 v2 = (if v1 = v2 then 0 else if lex_greater v1 v2 then 1 else - 1)"
    by (simp add: compareVersions_def lex_greater_def string_less_lexord)
  show "compareVersions ''10.0.0'' ''2.0.0'' = - 1"
    by (simp add: compareVersions_def)
next
  assume offered: "check p = Inr (Some u)"
  have "compareVersions a b > 0 \<longleftrightarrow> lex_greater a b" for a b
    using string_less_irrefl [of a]
    by (auto simp: compareVersions_def lex_greater_def string_less_lexord)
  with offered
  show "fst (isUpdateAvailable_with check p) = lex_greater (ui_Version u) (up_currentVersion p)"
    by (simp add: isUpdateAvailable_with_def)
qed

theorem compareVersions_lexical_witness:
  "fst (isUpdateAvailable_with
          (\<lambda>p. Inr (Some \<lparr>ui_Version = ''2.0.0'', ui_URL = '''', ui_Checksum = '''',
                           ui_ReleaseDate = 0, ui_Changelog = '''', ui_Size = 0\<rparr>))
          \<lparr>up_currentVersion = ''10.0.0'', up_updateURL = '''', up_downloadDir = ''''\<rparr>)
   \<and> lex_greater ''2.0.0'' ''10.0.0''"
  using compareVersions_lexical
    [of "''1''" "''1''"
        "\<lambda>p. Inr (Some \<lparr>ui_Version = ''2.0.0'', ui_URL = '''', ui_Checksum = '''',
                         ui_ReleaseDate = 0, ui_Changelog = '''', ui_Size = 0\<rparr>)"
        "\<lparr>up_currentVersion = ''10.0.0'', up_updateURL = '''', up_downloadDir = ''''\<rparr>"
        "\<lparr>ui_Version = ''2.0.0'', ui_URL = '''', ui_Checksum = '''',
          ui_ReleaseDate = 0, ui_Changelog = '''', ui_Size = 0\<rparr>"]
  by (simp add: isUpdateAvailable_with_def compareVersions_def)

subsection \<open>State store\<close>

lemma Since_gt_iff:
  "Since now t > 5 * Minute \<longleftrightarrow> now - t > 5 * Minute"
  by (simp add: Since_def Sub_def Let_def maxDuration_def minDuration_def Minute_def Second_def)

text \<open>
  C7. \<open>IsHealthy\<close> returns false exactly when the stored status is not "running" or the
  stored last heartbeat is more than five minutes older than the current time, and it
  leaves the store (the record in memory and its copy on disk) as it found it.
\<close>

theorem IsHealthy_false_iff:
  "(fst (IsHealthy now m) = False) =
     (as_Status (sm_status m) \<noteq> ''running''
      \<or> now - as_LastHeartbeat (sm_status m) > 300 * 1000000000)
   \<and> snd (IsHealthy now m) = m"
  using Since_gt_iff [of now "as_LastHeartbeat (sm_status m)"]
  by (auto simp: IsHealthy_def Minute_def Second_def)

theorem IsHealthy_false_iff_witness:
  "fst (IsHealthy 400000000000
          \<lparr>sm_dataDir = ''data'',
           sm_status = \<lparr>as_AgentID = ''a'', as_Version = ''1'', as_Status = ''running'',
                        as_StartTime = 0, as_LastHeartbeat = 0, as_RunningTasks = 0,
                        as_TotalTasks = 0\<rparr>,
           sm_startTime = 0, sm_disk = None\<rparr>) = False
   \<and> fst (IsHealthy 300000000000
          \<lparr>sm_dataDir = ''data'',
           sm_status = \<lparr>as_AgentID = ''a'', as_Version = ''1'', as_Status = ''running'',
                        as_StartTime = 0, as_LastHeartbeat = 0, as_RunningTasks = 0,
                        as_TotalTasks = 0\<rparr>,
           sm_startTime = 0, sm_disk = None\<rparr>) = True"
  using IsHealthy_false_iff
    [of 400000000000
        "\<lparr>sm_dataDir = ''data'',
          sm_status = \<lparr>as_AgentID = ''a'', as_Version = ''1'', as_Status = ''running'',
                       as_StartTime = 0, as_LastHeartbeat = 0, as_RunningTasks = 0,
                       as_TotalTasks = 0\<rparr>,
          sm_startTime = 0, sm_disk = None\<rparr>"]
    IsHealthy_false_iff
    [of 300000000000
        "\<lparr>sm_dataDir = ''data'',
          sm_status = \<lparr>as_AgentID = ''a'', as_Version = ''1'', as_Status = ''running'',
                       as_StartTime = 0, as_LastHeartbeat = 0, as_RunningTasks = 0,
                       as_TotalTasks = 0\<rparr>,
          sm_startTime = 0, sm_disk = None\<rparr>"]
  by simp

subsection \<open>Command executor\<close>

lemma newResult_ID: "r_ID (fst (newResult h cmd w)) = c_ID cmd"
  by (simp add: newResult_def Now_def)

lemma capture_ID: "capture h x r w = (r', w') \<Longrightarrow> r_ID r' = r_ID r"
  by (auto simp: capture_def split: prod.splits option.splits)

lemma executeShell_ID: "r_ID (fst (executeShell h e cmd w)) = c_ID cmd"
proof -
  obtain r w1 where nr: "newResult h cmd w = (r, w1)"
    by (cases "newResult h cmd w")
  then have "r_ID r = c_ID cmd"
    using newResult_ID [of h cmd w] by simp
  with nr show ?thesis
    by (auto simp: executeShell_def Let_def split: prod.splits sum.splits option.splits
          dest: capture_ID)
qed

lemma executePowerShell_ID: "r_ID (fst (executePowerShell h e cmd w)) = c_ID cmd"
proof -
  obtain r w1 where nr: "newResult h cmd w = (r, w1)"
    by (cases "newResult h cmd w")
  then have "r_ID r = c_ID cmd"
    using newResult_ID [of h cmd w] by simp
  with nr show ?thesis
    by (auto simp: executePowerShell_def Let_def split: prod.splits sum.splits option.splits
          dest: capture_ID)
qed

lemma executeContainer_ID: "r_ID (fst (executeContainer h e cmd w)) = c_ID cmd"
proof -
  obtain r w1 where nr: "newResult h cmd w = (r, w1)"
    by (cases "newResult h cmd w")
  then have "r_ID r = c_ID cmd"
    using newResult_ID [of h cmd w] by simp
  with nr show ?thesis
    by (auto simp: executeContainer_def Let_def split: prod.splits sum.splits option.splits
          dest: capture_ID)
qed

text \<open>
  C3. On every path of \<open>Execute\<close> (each of the three surfaces, whether the script
  file, the launch or the process fails or succeeds, a missing container id, and an
  unsupported type) the result's id is the command's id.
\<close>

theorem Execute_ID: "r_ID (fst (Execute h e cmd w)) = c_ID cmd"
proof -
  obtain r0 w1 where nr: "newResult h cmd w = (r0, w1)"
    by (cases "newResult h cmd w")
  then have r0: "r_ID r0 = c_ID cmd"
    using newResult_ID [of h cmd w] by simp
  show ?thesis
    using nr r0 executeShell_ID [of h e cmd w1] executePowerShell_ID [of h e cmd w1]
      executeContainer_ID [of h e cmd w1]
    by (auto simp: Execute_def split: prod.splits)
qed

lemma newResult_world:
  "newResult h cmd w = (r, w') \<Longrightarrow>
     w' = w\<lparr>w_ticks := Suc (w_ticks w)\<rparr>"
  by (auto simp: newResult_def Now_def)

lemma createScriptFile_started:
  "createScriptFile h e s ext w = (res, w') \<Longrightarrow> w_started w' = w_started w"
  by (auto simp: createScriptFile_def os_Remove_def split: sum.splits option.splits)

lemma capture_started:
  "capture h x r w = (r', w') \<Longrightarrow> w_started w' = w_started w @ [x]"
  by (auto simp: capture_def split: prod.splits option.splits)

lemma withTimeout_none: "c_Timeout cmd \<le> 0 \<Longrightarrow> withTimeout h cmd x = x"
  by (simp add: withTimeout_def)

lemma withTimeout_positive:
  "c_Timeout cmd > 0 \<Longrightarrow>
     withTimeout h cmd x = exec_CommandContext h (c_Timeout cmd) (x_Path x) (tl (x_Args x))"
  by (simp add: withTimeout_def)

lemma withTimeout_args:
  "x_Args x = name # args \<Longrightarrow> tl (x_Args (withTimeout h cmd x)) = args"
  by (simp add: withTimeout_def exec_CommandContext_def exec_Command_def)

lemma withTimeout_env:
  "x_Env x = None \<Longrightarrow> x_Env (withTimeout h cmd x) = None"
  by (simp add: withTimeout_def exec_CommandContext_def exec_Command_def)

text \<open>
  What \<open>executeShell\<close> hands to the operating system. Without a positive timeout the
  command carries the ambient environment followed by the command's entries; with a
  positive timeout the command handed over is the new one, whose environment is nil,
  whose directory is empty and which is bound to the timeout.
\<close>

lemma executeShell_started:
  "\<exists>xs. w_started (snd (executeShell h e cmd w)) = w_started w @ xs
        \<and> (c_Timeout cmd \<le> 0 \<longrightarrow> (\<forall>x\<in>set xs. x_Env x = Some (h_Environ h @ c_Env cmd)))
        \<and> (c_Timeout cmd > 0 \<longrightarrow>
             (\<forall>x\<in>set xs. x_Env x = None \<and> x_Dir x = '''' \<and> x_Timeout x = Some (c_Timeout cmd)))"
proof -
  obtain r w1 where nr: "newResult h cmd w = (r, w1)"
    by (cases "newResult h cmd w")
  then have w1: "w_started w1 = w_started w"
    by (auto dest: newResult_world)
  obtain res w2 where cs: "createScriptFile h e (c_Script cmd) ''sh'' w1 = (res, w2)"
    by (cases "createScriptFile h e (c_Script cmd) ''sh'' w1")
  then have w2: "w_started w2 = w_started w"
    using w1 by (auto dest: createScriptFile_started)
  show ?thesis
  proof (cases "c_Timeout cmd > 0")
    case True
    with nr cs w2 show ?thesis
      by (auto simp: executeShell_def Let_def os_Remove_def withTimeout_positive
            exec_CommandContext_def exec_Command_def
            split: prod.splits sum.splits option.splits dest!: capture_started)
  next
    case False
    with nr cs w2 show ?thesis
      by (auto simp: executeShell_def Let_def os_Remove_def withTimeout_none
            split: prod.splits sum.splits option.splits dest!: capture_started)
  qed
qed

lemma executePowerShell_started:
  "\<exists>xs. w_started (snd (executePowerShell h e cmd w)) = w_started w @ xs
        \<and> (c_Timeout cmd \<le> 0 \<longrightarrow> (\<forall>x\<in>set xs. x_Env x = Some (h_Environ h @ c_Env cmd)))
        \<and> (c_Timeout cmd > 0 \<longrightarrow>
             (\<forall>x\<in>set xs. x_Env x = None \<and> x_Dir x = '''' \<and> x_Timeout x = Some (c_Timeout cmd)))"
proof -
  obtain r w1 where nr: "newResult h cmd w = (r, w1)"
    by (cases "newResult h cmd w")
  then have w1: "w_started w1 = w_started w"
    by (auto dest: newResult_world)
  obtain res w2 where cs: "createScriptFile h e (c_Script cmd) ''ps1'' w1 = (res, w2)"
    by (cases "createScriptFile h e (c_Script cmd) ''ps1'' w1")
  then have w2: "w_started w2 = w_started w"
    using w1 by (auto dest: createScriptFile_started)
  show ?thesis
  proof (cases "c_Timeout cmd > 0")
    case True
    with nr cs w2 show ?thesis
      by (auto simp: executePowerShell_def Let_def os_Remove_def withTimeout_positive
            exec_CommandContext_def exec_Command_def
            split: prod.splits sum.splits option.splits dest!: capture_started)
  next
    case False
    with nr cs w2 show ?thesis
      by (auto simp: executePowerShell_def Let_def os_Remove_def withTimeout_none
            split: prod.splits sum.splits option.splits dest!: capture_started)
  qed
qed

text \<open>
  The container surface never sets the environment of the docker client: the command's
  entries travel as \<^verbatim>\<open>-e\<close> options of \<^verbatim>\<open>docker exec\<close>, and the new command of the timeout
  block receives the same arguments.
\<close>

lemma executeContainer_started:
  "\<exists>xs. w_started (snd (executeContainer h e cmd w)) = w_started w @ xs
        \<and> (\<forall>x\<in>set xs. x_Env x = None \<and> (\<exists>f. tl (x_Args x) = dockerArgs cmd f))"
proof -
  obtain r w1 where nr: "newResult h cmd w = (r, w1)"
    by (cases "newResult h cmd w")
  then have w1: "w_started w1 = w_started w"
    by (auto dest: newResult_world)
  obtain res w2 where cs: "createScriptFile h e (c_Script cmd) ''sh'' w1 = (res, w2)"
    by (cases "createScriptFile h e (c_Script cmd) ''sh'' w1")
  then have w2: "w_started w2 = w_started w"
    using w1 by (auto dest: createScriptFile_started)
  have env: "x_Env (withTimeout h cmd (exec_Command h ''docker'' (dockerArgs cmd f))) = None" for f
    by (simp add: withTimeout_env exec_Command_def)
  have args: "tl (x_Args (withTimeout h cmd (exec_Command h ''docker'' (dockerArgs cmd f))))
                = dockerArgs cmd f" for f
    by (rule withTimeout_args [of _ "''docker''"]) (simp add: exec_Command_def)
  show ?thesis
    using nr cs w1 w2 env args
    by (auto simp: executeContainer_def Let_def os_Remove_def
          split: prod.splits sum.splits option.splits dest!: capture_started)
qed

lemma Execute_started:
  "w_started (snd (Execute h e cmd w)) =
     w_started
       (snd (if c_Type cmd = CommandTypeShell
             then executeShell h e cmd (w\<lparr>w_ticks := Suc (w_ticks w)\<rparr>)
             else if c_Type cmd = CommandTypePowerShell
             then executePowerShell h e cmd (w\<lparr>w_ticks := Suc (w_ticks w)\<rparr>)
             else if c_Type cmd = CommandTypeContainer
             then executeContainer h e cmd (w\<lparr>w_ticks := Suc (w_ticks w)\<rparr>)
             else (undefined, w)))"
  by (auto simp: Execute_def newResult_def Now_def split: prod.splits)

lemma launched_eq:
  "w_started (snd (Execute h e cmd w)) = w_started w @ xs \<Longrightarrow> launched h e cmd w = xs"
  by (simp add: launched_def)

text \<open>
  The shell and script-host surfaces without a positive timeout, and the container
  surface: the commands they hand to the operating system.
\<close>

lemma Execute_launch_untimed:
  assumes "c_Type cmd = CommandTypeShell \<or> c_Type cmd = CommandTypePowerShell"
    and "c_Timeout cmd \<le> 0"
  shows "\<forall>x\<in>set (launched h e cmd w). x_Env x = Some (h_Environ h @ c_Env cmd)"
proof -
  let ?w1 = "w\<lparr>w_ticks := Suc (w_ticks w)\<rparr>"
  show ?thesis
  proof (cases "c_Type cmd = CommandTypeShell")
    case True
    obtain xs where xs: "w_started (snd (executeShell h e cmd ?w1)) = w_started ?w1 @ xs"
        "\<forall>x\<in>set xs. x_Env x = Some (h_Environ h @ c_Env cmd)"
      using executeShell_started [of h e cmd ?w1] assms(2) by auto
    have "launched h e cmd w = xs"
      using True xs(1) by (intro launched_eq) (simp add: Execute_started)
    with xs(2) show ?thesis by simp
  next
    case False
    with assms(1) have ps: "c_Type cmd = CommandTypePowerShell" by simp
    obtain xs where xs: "w_started (snd (executePowerShell h e cmd ?w1)) = w_started ?w1 @ xs"
        "\<forall>x\<in>set xs. x_Env x = Some (h_Environ h @ c_Env cmd)"
      using executePowerShell_started [of h e cmd ?w1] assms(2) by auto
    have "launched h e cmd w = xs"
      using False ps xs(1) by (intro launched_eq) (simp add: Execute_started)
    with xs(2) show ?thesis by simp
  qed
qed

lemma Execute_launch_container:
  assumes "c_Type cmd = CommandTypeContainer"
  shows "\<forall>x\<in>set (launched h e cmd w). x_Env x = None \<and> (\<exists>f. tl (x_Args x) = dockerArgs cmd f)"
proof -
  let ?w1 = "w\<lparr>w_ticks := Suc (w_ticks w)\<rparr>"
  obtain xs where xs: "w_started (snd (executeContainer h e cmd ?w1)) = w_started ?w1 @ xs"
      "\<forall>x\<in>set xs. x_Env x = None \<and> (\<exists>f. tl (x_Args x) = dockerArgs cmd f)"
    using executeContainer_started [of h e cmd ?w1] by auto
  have "launched h e cmd w = xs"
    using assms xs(1)
    by (intro launched_eq)
      (simp add: Execute_started CommandTypeContainer_def CommandTypeShell_def
         CommandTypePowerShell_def)
  with xs(2) show ?thesis by simp
qed

text \<open>
  C1 fails on the code. For a shell or script-host command with a positive timeout,
  \<open>Execute\<close> sets the environment (the ambient one followed by the command's entries)
  and the working directory on one command, and then hands the operating system
  another: the command made by \<^verbatim>\<open>exec.CommandContext\<close> in the timeout block, whose
  environment is nil and whose directory is empty. Every command launched is that one,
  so the command's entries are in no environment handed over.
\<close>

theorem Execute_timeout_drops_environment:
  assumes "c_Type cmd = CommandTypeShell \<or> c_Type cmd = CommandTypePowerShell"
    and "c_Timeout cmd > 0"
  shows "\<forall>x\<in>set (launched h e cmd w).
           x_Env x = None \<and> x_Dir x = '''' \<and> x_Timeout x = Some (c_Timeout cmd)"
proof -
  let ?w1 = "w\<lparr>w_ticks := Suc (w_ticks w)\<rparr>"
  show ?thesis
  proof (cases "c_Type cmd = CommandTypeShell")
    case True
    obtain xs where xs: "w_started (snd (executeShell h e cmd ?w1)) = w_started ?w1 @ xs"
        "\<forall>x\<in>set xs. x_Env x = None \<and> x_Dir x = '''' \<and> x_Timeout x = Some (c_Timeout cmd)"
      using executeShell_started [of h e cmd ?w1] assms(2) by auto
    have "launched h e cmd w = xs"
      using True xs(1) by (intro launched_eq) (simp add: Execute_started)
    with xs(2) show ?thesis by simp
  next
    case False
    with assms(1) have ps: "c_Type cmd = CommandTypePowerShell" by simp
    obtain xs where xs: "w_started (snd (executePowerShell h e cmd ?w1)) = w_started ?w1 @ xs"
        "\<forall>x\<in>set xs. x_Env x = None \<and> x_Dir x = '''' \<and> x_Timeout x = Some (c_Timeout cmd)"
      using executePowerShell_started [of h e cmd ?w1] assms(2) by auto
    have "launched h e cmd w = xs"
      using False ps xs(1) by (intro launched_eq) (simp add: Execute_started)
    with xs(2) show ?thesis by simp
  qed
qed

lemmas exec_demo_defs =
  demoHost_def demoExecutor_def demoWorld_def shellCommand_def containerCommand_def
  launched_def Execute_def executeShell_def executePowerShell_def executeContainer_def
  newResult_def Now_def createScriptFile_def capture_def withTimeout_def
  exec_Command_def exec_CommandContext_def os_Remove_def dockerArgs_def
  CommandTypeShell_def CommandTypePowerShell_def CommandTypeContainer_def
  Sub_def maxDuration_def minDuration_def zeroTime_def Let_def

text \<open>
  The failing input is the command of the repository's test of environment variables:
  a shell command with the entry "TEST_VAR=test_value" and a timeout of 10 seconds.
  The one command launched has a nil environment and no directory; the same command
  with no timeout is launched with the ambient environment followed by the entry, in
  the executor's working directory.
\<close>

theorem Execute_timeout_drops_environment_witness:
  "launched demoHost demoExecutor (shellCommand 10) demoWorld
     = [\<lparr>x_Path = ''/usr/bin/bash'', x_Args = [''/usr/bin/bash'', ''/tmp/script_1''],
         x_Dir = '''', x_Env = None, x_Timeout = Some 10, x_Process = None\<rparr>]
   \<and> c_Env (shellCommand 10) = [''TEST_VAR=test_value'']
   \<and> launched demoHost demoExecutor (shellCommand 0) demoWorld
     = [\<lparr>x_Path = ''/usr/bin/bash'', x_Args = [''bash'', ''/tmp/script_1''],
         x_Dir = ''/work'', x_Env = Some [''PATH=/usr/bin'', ''TEST_VAR=test_value''],
         x_Timeout = None, x_Process = None\<rparr>]"
  using Execute_timeout_drops_environment [of "shellCommand 10" demoHost demoExecutor demoWorld]
  by (simp add: exec_demo_defs)

text \<open>
  C4. A container command with an empty container id gets a result with success false
  and the error "container ID is required for container commands"; no temporary file
  is created and no command is launched: the host is left as it was, but for three
  readings of the clock.
\<close>

theorem Execute_container_without_id:
  assumes "c_Type cmd = CommandTypeContainer" and "c_ContainerID cmd = ''''"
  shows "r_Success (fst (Execute h e cmd w)) = False
    \<and> r_Error (fst (Execute h e cmd w)) = ''container ID is required for container commands''
    \<and> w_created (snd (Execute h e cmd w)) = w_created w
    \<and> launched h e cmd w = []
    \<and> snd (Execute h e cmd w) = w\<lparr>w_ticks := w_ticks w + 3\<rparr>"
  using assms
  by (simp add: launched_def Execute_def executeContainer_def newResult_def Now_def
        CommandTypeContainer_def CommandTypeShell_def CommandTypePowerShell_def)

theorem Execute_container_without_id_witness:
  "r_Success (fst (Execute demoHost demoExecutor (containerCommand '''') demoWorld)) = False
   \<and> r_Error (fst (Execute demoHost demoExecutor (containerCommand '''') demoWorld))
       = ''container ID is required for container commands''
   \<and> snd (Execute demoHost demoExecutor (containerCommand '''') demoWorld)
       = \<lparr>w_files = [], w_created = [], w_started = [], w_killed = [], w_ticks = 3\<rparr>"
  using Execute_container_without_id
    [of "containerCommand ''''" demoHost demoExecutor demoWorld]
  by (simp add: containerCommand_def CommandTypeContainer_def demoWorld_def)

text \<open>
  C9. \<open>StopCommand\<close> on an id that is not in the registry of running commands returns
  no error and leaves the registry, and the host, unchanged.
\<close>

theorem StopCommand_unknown_id:
  "ex_running e ident = None \<Longrightarrow> StopCommand h e ident w = (None, e, w)"
  by (simp add: StopCommand_def)

theorem StopCommand_unknown_id_witness:
  "StopCommand demoHost demoExecutor ''non-existent'' demoWorld
     = (None, demoExecutor, demoWorld)"
  using StopCommand_unknown_id [of demoExecutor "''non-existent''" demoHost demoWorld]
  by (simp add: demoExecutor_def)

subsection \<open>Plugin registry\<close>

lemma set_mu_same [simp]: "pm_mu m = mu \<Longrightarrow> m\<lparr>pm_mu := mu\<rparr> = m"
  by (cases m) simp

lemma withLock_Some:
  "withLock m body = Some (r, m') \<Longrightarrow>
     pm_mu m = Unlocked \<and> (\<exists>m2. body (m\<lparr>pm_mu := Locked\<rparr>) = Some (r, m2) \<and> m' = m2\<lparr>pm_mu := Unlocked\<rparr>)"
  by (auto simp: withLock_def Lock_def Unlock_def split: RWMutex.splits option.splits)

lemma withLock_unlocked:
  "pm_mu m = Unlocked \<Longrightarrow>
     withLock m body =
       (case body (m\<lparr>pm_mu := Locked\<rparr>) of
          None \<Rightarrow> None
        | Some (r, m') \<Rightarrow> Some (r, m'\<lparr>pm_mu := Unlocked\<rparr>))"
  by (simp add: withLock_def Lock_def Unlock_def split: option.splits)

lemma lookupInstance_unlocked:
  "pm_mu m = Unlocked \<Longrightarrow> lookupInstance m name = Some (pm_plugins m name, m)"
  by (simp add: lookupInstance_def RLock_def RUnlock_def)

lemma lookupInstance_locked: "pm_mu m = Locked \<Longrightarrow> lookupInstance m name = None"
  by (simp add: lookupInstance_def RLock_def)

lemma updInstance_mu [simp]: "pm_mu (updInstance name f m) = pm_mu m"
  by (simp add: updInstance_def split: option.splits)

lemma updInstance_set_mu: "(updInstance name f m)\<lparr>pm_mu := mu\<rparr> = updInstance name f (m\<lparr>pm_mu := mu\<rparr>)"
  by (simp add: updInstance_def split: option.splits)

text \<open>
  With the write lock held, \<open>LoadPluginConfig\<close> and \<open>SavePluginConfig\<close> wait for the
  read lock and never return; so \<open>StartPlugin\<close> on a registered plugin that is not
  running never returns.
\<close>

lemma LoadPluginConfig_locked: "pm_mu m = Locked \<Longrightarrow> LoadPluginConfig sys m name = None"
  by (simp add: LoadPluginConfig_def lookupInstance_locked)

lemma StartPlugin_blocks:
  "pm_plugins m name = Some i \<Longrightarrow> ps_Status (pi_Status i) \<noteq> ''running'' \<Longrightarrow>
     StartPlugin sys now m name = None"
  by (simp add: StartPlugin_def withLock_def LoadPluginConfig_locked Lock_def
        split: RWMutex.splits)

subsubsection \<open>Every operation returns with the mutex free\<close>

lemma Register_mu: "Register sys now m plugin = Some (err, m') \<Longrightarrow> pm_mu m' = Unlocked"
  by (auto simp: Register_def dest!: withLock_Some)

lemma Unregister_mu: "Unregister m name = Some (err, m') \<Longrightarrow> pm_mu m' = Unlocked"
  by (auto simp: Unregister_def dest!: withLock_Some)

lemma StartPlugin_mu: "StartPlugin sys now m name = Some (err, m') \<Longrightarrow> pm_mu m' = Unlocked"
  by (auto simp: StartPlugin_def dest!: withLock_Some)

lemma StopPlugin_mu: "StopPlugin sys m name = Some (err, m') \<Longrightarrow> pm_mu m' = Unlocked"
  by (auto simp: StopPlugin_def dest!: withLock_Some)

lemma LoadPluginConfig_mu:
  "pm_mu m = Unlocked \<Longrightarrow> LoadPluginConfig sys m name = Some (err, m') \<Longrightarrow> pm_mu m' = Unlocked"
  by (auto simp: LoadPluginConfig_def lookupInstance_unlocked split: option.splits sum.splits)

lemma SavePluginConfig_mu:
  "pm_mu m = Unlocked \<Longrightarrow> SavePluginConfig sys m name = Some (err, m') \<Longrightarrow> pm_mu m' = Unlocked"
  by (auto simp: SavePluginConfig_def lookupInstance_unlocked Let_def
        split: option.splits sum.splits prod.splits)

lemma GetPluginStatus_mu:
  "pm_mu m = Unlocked \<Longrightarrow> GetPluginStatus m name = Some (res, m') \<Longrightarrow> pm_mu m' = Unlocked"
  by (auto simp: GetPluginStatus_def RLock_def RUnlock_def Let_def
        split: option.splits prod.splits)

lemma SendCommand_mu:
  "pm_mu m = Unlocked \<Longrightarrow> SendCommand m name command args = Some (res, m') \<Longrightarrow>
     pm_mu m' = Unlocked"
  by (auto simp: SendCommand_def lookupInstance_unlocked
        split: option.splits prod.splits if_splits)

lemma SendEvent_mu:
  "pm_mu m = Unlocked \<Longrightarrow> SendEvent m name eventType data = Some (err, m') \<Longrightarrow>
     pm_mu m' = Unlocked"
  by (auto simp: SendEvent_def lookupInstance_unlocked
        split: option.splits prod.splits if_splits)

lemma reachable_unlocked: "reachable m \<Longrightarrow> pm_mu m = Unlocked"
proof (induction rule: reachable.induct)
  case (r_new dataDir)
  show ?case by (simp add: NewManager_def)
qed (auto dest: Register_mu Unregister_mu StartPlugin_mu StopPlugin_mu LoadPluginConfig_mu
       SavePluginConfig_mu GetPluginStatus_mu SendCommand_mu SendEvent_mu)

subsubsection \<open>Every entry is filed under its descriptor's name\<close>

lemma filedByName_set_mu [simp]: "filedByName (m\<lparr>pm_mu := mu\<rparr>) = filedByName m"
  by (simp add: filedByName_def)

lemma filedByName_set_files [simp]: "filedByName (m\<lparr>pm_files := fs\<rparr>) = filedByName m"
  by (simp add: filedByName_def)

lemma filedByName_updInstance:
  "filedByName m \<Longrightarrow> (\<And>i. pm_plugins m name = Some i \<Longrightarrow> descriptorName (f i) = Some name) \<Longrightarrow>
     filedByName (updInstance name f m)"
  by (auto simp: filedByName_def updInstance_def split: option.splits)

lemma filedByName_delete:
  "filedByName m \<Longrightarrow> filedByName (m\<lparr>pm_plugins := (pm_plugins m)(name := None)\<rparr>)"
  by (auto simp: filedByName_def)

lemma filedByName_lookup:
  "filedByName m \<Longrightarrow> pm_plugins m name = Some i \<Longrightarrow> descriptorName i = Some name"
  by (simp add: filedByName_def)

lemma filedByName_info:
  "filedByName m \<Longrightarrow> pm_plugins m name = Some i \<Longrightarrow>
     \<exists>info. p_Info (pi_Plugin i) = Some info \<and> pin_Name info = name"
  by (auto simp: filedByName_def descriptorName_def)

lemma descriptorName_simps [simp]:
  "descriptorName (i\<lparr>pi_Status := s\<rparr>) = descriptorName i"
  "descriptorName (i\<lparr>pi_Config := c\<rparr>) = descriptorName i"
  "descriptorName (i\<lparr>pi_Context := x\<rparr>) = descriptorName i"
  "descriptorName (i\<lparr>pi_Plugin := p\<rparr>) = map_option pin_Name (p_Info p)"
  by (simp_all add: descriptorName_def)

lemma call_Info [simp]:
  "p_Info (snd (plugin_Init p n)) = p_Info p"
  "p_Info (snd (plugin_Start p)) = p_Info p"
  "p_Info (snd (plugin_Stop p)) = p_Info p"
  "p_Info (snd (plugin_HandleCommand p c a)) = p_Info p"
  "p_Info (snd (plugin_HandleEvent p c a)) = p_Info p"
  "p_Info (snd (plugin_Status p)) = p_Info p"
  "p_Info (snd (plugin_GetConfig p)) = p_Info p"
  by (simp_all add: plugin_Init_def plugin_Start_def plugin_Stop_def plugin_HandleCommand_def
        plugin_HandleEvent_def plugin_Status_def plugin_GetConfig_def)

lemma Register_filed:
  "filedByName m \<Longrightarrow> Register sys now m plugin = Some (err, m') \<Longrightarrow> filedByName m'"
  by (auto simp: Register_def filedByName_def descriptorName_def
        dest!: withLock_Some split: option.splits if_splits)

lemma SavePluginConfig_locked: "pm_mu m = Locked \<Longrightarrow> SavePluginConfig sys m name = None"
  by (simp add: SavePluginConfig_def lookupInstance_locked)

lemma StartPlugin_Some: "StartPlugin sys now m name = Some (err, m') \<Longrightarrow> m' = m"
  by (auto simp: StartPlugin_def LoadPluginConfig_locked
        dest!: withLock_Some split: option.splits if_splits)

lemma filedByName_same_names:
  assumes "filedByName m"
    and "\<And>n i'. pm_plugins m' n = Some i' \<Longrightarrow>
           \<exists>i. pm_plugins m n = Some i \<and> descriptorName i' = descriptorName i"
  shows "filedByName m'"
  unfolding filedByName_def
proof (intro allI impI)
  fix n i'
  assume "pm_plugins m' n = Some i'"
  then obtain i where "pm_plugins m n = Some i" "descriptorName i' = descriptorName i"
    using assms(2) by blast
  with assms(1) show "descriptorName i' = Some n"
    by (simp add: filedByName_def)
qed

lemma Unregister_filed:
  "filedByName m \<Longrightarrow> Unregister m name = Some (err, m') \<Longrightarrow> filedByName m'"
  by (erule filedByName_same_names)
    (auto simp: Unregister_def Let_def updInstance_def
       dest!: withLock_Some split: option.splits if_splits)

lemma StopPlugin_filed:
  "filedByName m \<Longrightarrow> StopPlugin sys m name = Some (err, m') \<Longrightarrow> filedByName m'"
  by (erule filedByName_same_names)
    (auto simp: StopPlugin_def SavePluginConfig_locked updInstance_def descriptorName_def
       plugin_Stop_def
       dest!: withLock_Some split: option.splits if_splits prod.splits)

lemma LoadPluginConfig_filed:
  "filedByName m \<Longrightarrow> pm_mu m = Unlocked \<Longrightarrow> LoadPluginConfig sys m name = Some (err, m') \<Longrightarrow>
     filedByName m'"
  by (erule filedByName_same_names)
    (auto simp: LoadPluginConfig_def lookupInstance_unlocked updInstance_def descriptorName_def
       split: option.splits sum.splits if_splits)

lemma SavePluginConfig_filed:
  "filedByName m \<Longrightarrow> pm_mu m = Unlocked \<Longrightarrow> SavePluginConfig sys m name = Some (err, m') \<Longrightarrow>
     filedByName m'"
  by (erule filedByName_same_names)
    (auto simp: SavePluginConfig_def lookupInstance_unlocked Let_def updInstance_def
       descriptorName_def plugin_GetConfig_def
       split: option.splits sum.splits prod.splits if_splits)

lemma GetPluginStatus_filed:
  "filedByName m \<Longrightarrow> GetPluginStatus m name = Some (res, m') \<Longrightarrow> filedByName m'"
  by (erule filedByName_same_names)
    (auto simp: GetPluginStatus_def Let_def updInstance_def descriptorName_def plugin_Status_def
       split: option.splits prod.splits if_splits)

lemma SendCommand_filed:
  "filedByName m \<Longrightarrow> pm_mu m = Unlocked \<Longrightarrow>
     SendCommand m name command args = Some (res, m') \<Longrightarrow> filedByName m'"
  by (erule filedByName_same_names)
    (auto simp: SendCommand_def lookupInstance_unlocked updInstance_def descriptorName_def
       plugin_HandleCommand_def
       split: option.splits prod.splits if_splits)

lemma SendEvent_filed:
  "filedByName m \<Longrightarrow> pm_mu m = Unlocked \<Longrightarrow>
     SendEvent m name eventType data = Some (err, m') \<Longrightarrow> filedByName m'"
  by (erule filedByName_same_names)
    (auto simp: SendEvent_def lookupInstance_unlocked updInstance_def descriptorName_def
       plugin_HandleEvent_def
       split: option.splits prod.splits if_splits)

lemma reachable_filed: "reachable m \<Longrightarrow> filedByName m"
proof (induction rule: reachable.induct)
  case (r_new dataDir)
  show ?case by (simp add: NewManager_def filedByName_def)
next
  case (r_Register m sys now plugin err m')
  then show ?case by (blast intro: Register_filed)
next
  case (r_Unregister m name err m')
  then show ?case by (blast intro: Unregister_filed)
next
  case (r_StartPlugin m sys now name err m')
  then show ?case by (auto dest: StartPlugin_Some)
next
  case (r_StopPlugin m sys name err m')
  then show ?case by (blast intro: StopPlugin_filed)
next
  case (r_LoadPluginConfig m sys name err m')
  then show ?case by (blast intro: LoadPluginConfig_filed reachable_unlocked)
next
  case (r_SavePluginConfig m sys name err m')
  then show ?case by (blast intro: SavePluginConfig_filed reachable_unlocked)
next
  case (r_GetPluginStatus m name res m')
  then show ?case by (blast intro: GetPluginStatus_filed)
next
  case (r_SendCommand m name command args res m')
  then show ?case by (blast intro: SendCommand_filed reachable_unlocked)
next
  case (r_SendEvent m name eventType data err m')
  then show ?case by (blast intro: SendEvent_filed reachable_unlocked)
next
  case (r_status m name status)
  show ?case
  proof (rule filedByName_updInstance)
    show "filedByName m" by (rule r_status.IH)
  next
    fix i
    assume "pm_plugins m name = Some i"
    with r_status.IH show "descriptorName (i\<lparr>pi_Status := status\<rparr>) = Some name"
      by (simp add: filedByName_lookup)
  qed
qed

subsubsection \<open>Dispatch\<close>

text \<open>
  C5. With no call in progress, \<open>SendCommand\<close> and \<open>SendEvent\<close> return the "not found"
  error when no plugin has the name, the "not started" error when the instance's
  status is not "running", and otherwise call the plugin once, before returning, and
  return its answer (result and error) as it is. The registry changes only by that
  call entering the plugin's history.
\<close>

theorem Send_dispatch:
  assumes "pm_mu m = Unlocked"
  shows "(pm_plugins m name = None \<longrightarrow>
            SendCommand m name command args = Some ((JNull, Some ErrPluginNotFound), m)
            \<and> SendEvent m name eventType data = Some (Some ErrPluginNotFound, m))
    \<and> (\<forall>i. pm_plugins m name = Some i \<and> ps_Status (pi_Status i) \<noteq> ''running'' \<longrightarrow>
            SendCommand m name command args = Some ((JNull, Some ErrPluginNotStarted), m)
            \<and> SendEvent m name eventType data = Some (Some ErrPluginNotStarted, m))
    \<and> (\<forall>i. pm_plugins m name = Some i \<and> ps_Status (pi_Status i) = ''running'' \<longrightarrow>
            SendCommand m name command args =
              Some (p_HandleCommand (pi_Plugin i) (p_calls (pi_Plugin i)) command args,
                    m\<lparr>pm_plugins := (pm_plugins m)(name \<mapsto>
                        i\<lparr>pi_Plugin := (pi_Plugin i)\<lparr>p_calls :=
                             p_calls (pi_Plugin i) @ [CallHandleCommand command args]\<rparr>\<rparr>)\<rparr>)
            \<and> SendEvent m name eventType data =
              Some (p_HandleEvent (pi_Plugin i) (p_calls (pi_Plugin i)) eventType data,
                    m\<lparr>pm_plugins := (pm_plugins m)(name \<mapsto>
                        i\<lparr>pi_Plugin := (pi_Plugin i)\<lparr>p_calls :=
                             p_calls (pi_Plugin i) @ [CallHandleEvent eventType data]\<rparr>\<rparr>)\<rparr>))"
  using assms
  by (simp add: SendCommand_def SendEvent_def lookupInstance_unlocked updInstance_def
        plugin_HandleCommand_def plugin_HandleEvent_def)

lemmas plugin_demo_defs =
  demoRegistry_def demoPlugin_def demoSys_def NewManager_def

theorem Send_dispatch_witness:
  "SendCommand (demoRegistry ''running'' []) ''demo'' ''ping'' Map.empty
     = Some ((JStr ''ping'', None),
             demoRegistry ''running'' [CallHandleCommand ''ping'' Map.empty])
   \<and> SendCommand (demoRegistry ''stopped'' []) ''demo'' ''ping'' Map.empty
     = Some ((JNull, Some ErrPluginNotStarted), demoRegistry ''stopped'' [])
   \<and> SendEvent (demoRegistry ''running'' []) ''other'' ''tick'' Map.empty
     = Some (Some ErrPluginNotFound, demoRegistry ''running'' [])"
  using Send_dispatch [of "demoRegistry ''running'' []" "''demo''" "''ping''" Map.empty
                          "''tick''" Map.empty]
    Send_dispatch [of "demoRegistry ''stopped'' []" "''demo''" "''ping''" Map.empty
                      "''tick''" Map.empty]
    Send_dispatch [of "demoRegistry ''running'' []" "''other''" "''ping''" Map.empty
                      "''tick''" Map.empty]
  by (simp add: plugin_demo_defs)

subsubsection \<open>Registration\<close>

text \<open>
  C6. At every state the registry can reach, registering a plugin whose descriptor name
  is the descriptor name of a registered plugin returns the "already exists" error and
  leaves the registry as it was; every entry is filed under its descriptor's name, and
  so no two registered plugins share a descriptor name.
\<close>

theorem Register_name_collision:
  assumes "reachable m"
  shows "(\<forall>info n i. p_Info plugin = Some info \<and> pm_plugins m n = Some i
                       \<and> descriptorName i = Some (pin_Name info) \<longrightarrow>
            Register sys now m plugin = Some (Some ErrPluginAlreadyExists, m))
    \<and> (\<forall>n i. pm_plugins m n = Some i \<longrightarrow> descriptorName i = Some n)
    \<and> (\<forall>n1 n2 i1 i2. pm_plugins m n1 = Some i1 \<and> pm_plugins m n2 = Some i2 \<and> n1 \<noteq> n2 \<longrightarrow>
            descriptorName i1 \<noteq> descriptorName i2)"
proof (intro conjI allI impI)
  have filed: "filedByName m"
    using assms by (rule reachable_filed)
  have free: "pm_mu m = Unlocked"
    using assms by (rule reachable_unlocked)
  {
    fix info n i
    assume a: "p_Info plugin = Some info \<and> pm_plugins m n = Some i
                 \<and> descriptorName i = Some (pin_Name info)"
    then have "n = pin_Name info"
      using filed by (auto dest: filedByName_lookup)
    with a free show "Register sys now m plugin = Some (Some ErrPluginAlreadyExists, m)"
      by (simp add: Register_def withLock_unlocked)
  }
  {
    fix n i
    assume "pm_plugins m n = Some i"
    with filed show "descriptorName i = Some n"
      by (rule filedByName_lookup)
  }
  {
    fix n1 n2 i1 i2
    assume "pm_plugins m n1 = Some i1 \<and> pm_plugins m n2 = Some i2 \<and> n1 \<noteq> n2"
    then have "descriptorName i1 = Some n1" "descriptorName i2 = Some n2" "n1 \<noteq> n2"
      using filed by (simp_all add: filedByName_lookup)
    then show "descriptorName i1 \<noteq> descriptorName i2"
      by simp
  }
qed

theorem Register_name_collision_witness:
  "Register demoSys 0 (NewManager ''data'') demoPlugin
     = Some (None, demoRegistry ''stopped'' [])
   \<and> Register demoSys 0 (demoRegistry ''stopped'' []) demoPlugin
     = Some (Some ErrPluginAlreadyExists, demoRegistry ''stopped'' [])"
proof -
  have first: "Register demoSys 0 (NewManager ''data'') demoPlugin
                 = Some (None, demoRegistry ''stopped'' [])"
    by (simp add: Register_def withLock_def Lock_def Unlock_def zeroTime_def plugin_demo_defs)
  have "reachable (demoRegistry ''stopped'' [])"
    using r_new first by (rule r_Register)
  from Register_name_collision [OF this, of demoPlugin demoSys 0] first
  show ?thesis
    by (simp add: descriptorName_def plugin_demo_defs)
qed

subsubsection \<open>Starting a running plugin\<close>

lemma StartPlugin_running:
  "pm_mu m = Unlocked \<Longrightarrow> pm_plugins m name = Some i \<Longrightarrow> ps_Status (pi_Status i) = ''running'' \<Longrightarrow>
     StartPlugin sys now m name = Some (Some ErrPluginAlreadyStarted, m)"
  by (simp add: StartPlugin_def withLock_unlocked)

lemma startEach_running:
  assumes "pm_mu m = Unlocked"
    and "\<forall>n\<in>set names. \<exists>i. pm_plugins m n = Some i \<and> ps_Status (pi_Status i) = ''running''"
  shows "startEach sys now m names errors =
           Some (errors @ map (\<lambda>n. Wrapped (''failed to start plugin '' @ n)
                                     ErrPluginAlreadyStarted) names, m)"
  using assms(2)
proof (induction names arbitrary: errors)
  case Nil
  show ?case by simp
next
  case (Cons n names)
  then obtain i where "pm_plugins m n = Some i" "ps_Status (pi_Status i) = ''running''"
    by auto
  then have "StartPlugin sys now m n = Some (Some ErrPluginAlreadyStarted, m)"
    using assms(1) by (simp add: StartPlugin_running)
  with Cons show ?case by simp
qed

text \<open>
  C10. With no call in progress, \<open>StartPlugin\<close> on an instance whose status is
  "running" returns the "already started" error and leaves the manager as it was: the
  plugin's history gains no call, so neither \<open>Init\<close> nor \<open>Start\<close> is invoked, and the
  status is unchanged. Hence \<open>StartAll\<close> over a registry that is not empty and whose
  plugins are all running returns the combined failure, one "already started" error
  for each name, and changes nothing.
\<close>

theorem StartPlugin_already_started:
  assumes "pm_mu m = Unlocked"
  shows "(\<forall>i. pm_plugins m name = Some i \<and> ps_Status (pi_Status i) = ''running'' \<longrightarrow>
            StartPlugin sys now m name = Some (Some ErrPluginAlreadyStarted, m))
    \<and> (names \<noteq> [] \<and> set names = dom (pm_plugins m)
        \<and> (\<forall>n i. pm_plugins m n = Some i \<longrightarrow> ps_Status (pi_Status i) = ''running'') \<longrightarrow>
          StartAll sys now m names =
            Some (Some (Combined ''failed to start some plugins''
                          (map (\<lambda>n. Wrapped (''failed to start plugin '' @ n)
                                       ErrPluginAlreadyStarted) names)), m))"
proof (intro conjI allI impI)
  fix i
  assume "pm_plugins m name = Some i \<and> ps_Status (pi_Status i) = ''running''"
  with assms show "StartPlugin sys now m name = Some (Some ErrPluginAlreadyStarted, m)"
    by (simp add: StartPlugin_running)
next
  assume a: "names \<noteq> [] \<and> set names = dom (pm_plugins m)
               \<and> (\<forall>n i. pm_plugins m n = Some i \<longrightarrow> ps_Status (pi_Status i) = ''running'')"
  then have "\<forall>n\<in>set names. \<exists>i. pm_plugins m n = Some i \<and> ps_Status (pi_Status i) = ''running''"
    by auto
  with assms have "startEach sys now m names [] =
      Some ([] @ map (\<lambda>n. Wrapped (''failed to start plugin '' @ n) ErrPluginAlreadyStarted) names, m)"
    by (rule startEach_running)
  with assms a
  show "StartAll sys now m names =
          Some (Some (Combined ''failed to start some plugins''
                        (map (\<lambda>n. Wrapped (''failed to start plugin '' @ n)
                                     ErrPluginAlreadyStarted) names)), m)"
    by (simp add: StartAll_def RLock_def RUnlock_def)
qed

theorem StartPlugin_already_started_witness:
  "StartPlugin demoSys 5 (demoRegistry ''running'' [CallInit ''demo'', CallStart]) ''demo''
     = Some (Some ErrPluginAlreadyStarted,
             demoRegistry ''running'' [CallInit ''demo'', CallStart])
   \<and> StartAll demoSys 5 (demoRegistry ''running'' [CallInit ''demo'', CallStart]) [''demo'']
     = Some (Some (Combined ''failed to start some plugins''
                     [Wrapped ''failed to start plugin demo'' ErrPluginAlreadyStarted]),
             demoRegistry ''running'' [CallInit ''demo'', CallStart])"
  using StartPlugin_already_started
    [of "demoRegistry ''running'' [CallInit ''demo'', CallStart]" "''demo''" demoSys 5
        "[''demo'']"]
  by (simp add: plugin_demo_defs dom_def)

subsection \<open>Scheduler plugin\<close>

text \<open>
  The sibling command: \<open>handleAddTask\<close> validates the expression before it writes
  anything, so an invalid expression leaves the plugin as it was.
\<close>

lemma handleAddTask_invalid_cron:
  assumes "asString (args ''cron_expr'') = Some cronExpr"
    and "cron_ParseStandard lib cronExpr = Some err"
  shows "snd (handleAddTask lib taskID p args) = p"
  using assms
  by (simp add: handleAddTask_def Let_def split: option.splits)

text \<open>
  C2 fails on the code. \<open>handleUpdateTask\<close> assigns the name and the description
  before it validates the expression: a request that carries a new name and an invalid
  expression for a registered task is rejected with the invalid-expression error, and
  the task is left renamed.
\<close>

theorem handleUpdateTask_invalid_cron_renames:
  assumes "sp_tasks p ident = Some task"
    and "args ''id'' = Some (JStr ident)"
    and "args ''name'' = Some (JStr name)"
    and "args ''description'' = None"
    and "args ''cron_expr'' = Some (JStr cronExpr)"
    and "cron_ParseStandard lib cronExpr = Some err"
  shows "handleUpdateTask lib p args =
           (Inl (''invalid cron expression: '' @ err),
            p\<lparr>sp_tasks := (sp_tasks p)(ident \<mapsto> task\<lparr>t_Name := name\<rparr>)\<rparr>)"
  using assms
  by (simp add: handleUpdateTask_def asString_def Let_def)

text \<open>
  The failing input: the task "task_1" is named "test-task"; the request with the name
  "renamed" and the expression "not a cron" is rejected, and the task is named
  "renamed" afterwards.
\<close>

theorem handleUpdateTask_invalid_cron_renames_witness:
  "handleUpdateTask demoCron (demoScheduler ''test-task'')
     [''id'' \<mapsto> JStr ''task_1'', ''name'' \<mapsto> JStr ''renamed'',
      ''cron_expr'' \<mapsto> JStr ''not a cron'']
     = (Inl ''invalid cron expression: expected exactly 5 fields: [not a cron]'',
        demoScheduler ''renamed'')
   \<and> map_option t_Name (sp_tasks (demoScheduler ''test-task'') ''task_1'') = Some ''test-task''
   \<and> map_option t_Name (sp_tasks (demoScheduler ''renamed'') ''task_1'') = Some ''renamed''"
  using handleUpdateTask_invalid_cron_renames
    [of "demoScheduler ''test-task''" "''task_1''"
        "\<lparr>t_ID = ''task_1'', t_Name = ''test-task'', t_Description = '''',
          t_CronExpr = ''*/1 * * * *'', t_Command = ''echo hello'', t_Args = [],
          t_Type = ''shell'', t_Enabled = False, t_Status = ''active'',
          t_LastRun = 0, t_NextRun = 0, t_RunCount = 0, t_SuccessCount = 0,
          t_FailureCount = 0, t_EntryID = 0\<rparr>"
        "[''id'' \<mapsto> JStr ''task_1'', ''name'' \<mapsto> JStr ''renamed'',
          ''cron_expr'' \<mapsto> JStr ''not a cron'']"
        "''renamed''" "''not a cron''" demoCron
        "''expected exactly 5 fields: [not a cron]''"]
  by (simp add: demoCron_def demoScheduler_def)

end
